theory Spec2Isabelle
  imports Main "HOL-Library.AList"
begin

section \<open>POTCAR storage of aiida-vasp: data model\<close>

text \<open>
  The development follows \<^verbatim>\<open>aiida_vasp/data/potcar.py\<close> and
  \<^verbatim>\<open>aiida_vasp/commands/potcar.py\<close>. A node of the database carries a dictionary of
  attributes; the two node classes \<^verbatim>\<open>PotcarFileData\<close> (holds the archived file) and
  \<^verbatim>\<open>PotcarData\<close> (holds the metadata only) are queried through the same mixin,
  each over the stored nodes of its own class.
\<close>

datatype error =
    AttributeError
  | KeyError
  | UniquenessError
  | NotExistent
  | MultipleObjectsError
  | MissingParameter
  | TypeError
  | ContentUnavailable

text \<open>A Python dictionary of attributes, or of keyword arguments: keys are distinct.\<close>

type_synonym attrs = "(string \<times> string) list"

record node =
  pk :: "nat option"
  attributes :: attrs

record potcar_file_data = node +
  filelist :: "(string \<times> string option) list"

type_synonym potcar_data = node

record db =
  potcar_files :: "potcar_file_data list"
  potcars :: "potcar_data list"
  next_pk :: nat

text \<open>
  What the module takes from outside: \<^verbatim>\<open>md5_file\<close> of aiida (the digest of the file at a
  path) and \<^verbatim>\<open>PotcarSingle.from_file\<close> of pymatgen (the parsed POTCAR at a path, or the
  error the parser raises). Both are parameters of the model.
\<close>

record potcar_single =
  ps_keywords :: attrs
  ps_functional :: string
  ps_element :: string
  ps_symbol :: string

record env =
  md5_file :: "string \<Rightarrow> string"
  from_file :: "string \<Rightarrow> error + potcar_single"

text \<open>\<^verbatim>\<open>get_attr\<close> raises \<^verbatim>\<open>AttributeError\<close> on a missing attribute.\<close>

definition get_attr :: "'a node_scheme \<Rightarrow> string \<Rightarrow> error + string" where
  "get_attr self attr_name =
     (case map_of (attributes self) attr_name of
        None \<Rightarrow> Inl AttributeError
      | Some v \<Rightarrow> Inr v)"

definition set_attr :: "string \<Rightarrow> string \<Rightarrow> 'a node_scheme \<Rightarrow> 'a node_scheme" where
  "set_attr attr_name attr_val self =
     self\<lparr>attributes := AList.update attr_name attr_val (attributes self)\<rparr>"

definition get_attrs :: "'a node_scheme \<Rightarrow> attrs" where
  "get_attrs self = attributes self"

subsection \<open>PotcarMetadataMixin: queries\<close>

text \<open>
  The filter that \<^verbatim>\<open>query_by_attrs\<close> hands to the query builder asks, for each keyword
  argument, that the attribute of that name equals the given value. The query runs over the
  stored nodes of the class, passed here as \<open>table\<close>; its result keeps the matching nodes.
\<close>

definition satisfies :: "attrs \<Rightarrow> 'a node_scheme \<Rightarrow> bool" where
  "satisfies kwargs n =
     list_all (\<lambda>(attr_name, attr_val). map_of (attributes n) attr_name = Some attr_val) kwargs"

definition query_by_attrs :: "'a node_scheme list \<Rightarrow> attrs \<Rightarrow> 'a node_scheme list" where
  "query_by_attrs table kwargs = filter (satisfies kwargs) table"

text \<open>
  The query builder's \<^verbatim>\<open>one()\<close> gives the only row of the result, and raises
  \<^verbatim>\<open>NotExistent\<close> on an empty result and \<^verbatim>\<open>MultipleObjectsError\<close> on more than one
  row. A row of this query has one column, the node. \<^verbatim>\<open>count()\<close> is the number of rows.
  The method \<^verbatim>\<open>find\<close> of the mixin is \<open>find_node\<close> here, \<open>find\<close> being a function on
  lists already.
\<close>

fun one :: "'n list \<Rightarrow> error + 'n list" where
  "one [] = Inl NotExistent"
| "one [n] = Inr [n]"
| "one (n # m # rest) = Inl MultipleObjectsError"

definition count :: "'n list \<Rightarrow> nat" where
  "count query_builder = length query_builder"

definition find_node :: "'a node_scheme list \<Rightarrow> attrs \<Rightarrow> error + 'a node_scheme" where
  "find_node table kwargs =
     (case one (query_by_attrs table kwargs) of
        Inl e \<Rightarrow> Inl e
      | Inr row \<Rightarrow> Inr (row ! 0))"

definition exists :: "'a node_scheme list \<Rightarrow> attrs \<Rightarrow> bool" where
  "exists table kwargs = (count (query_by_attrs table kwargs) \<ge> 1)"


subsection \<open>PotcarMetadataMixin: properties and uniqueness\<close>

definition md5 :: "'a node_scheme \<Rightarrow> error + string" where
  "md5 self = get_attr self ''md5''"

definition title :: "'a node_scheme \<Rightarrow> error + string" where
  "title self = get_attr self ''title''"

definition functional :: "'a node_scheme \<Rightarrow> error + string" where
  "functional self = get_attr self ''functional''"

definition element :: "'a node_scheme \<Rightarrow> error + string" where
  "element self = get_attr self ''element''"

definition symbol :: "'a node_scheme \<Rightarrow> error + string" where
  "symbol self = get_attr self ''symbol''"

text \<open>
  \<^verbatim>\<open>verify_unique\<close> of the mixin, used by \<^verbatim>\<open>PotcarData\<close>; \<open>table\<close> holds the stored
  nodes of the class of \<open>self\<close>.
\<close>

definition verify_unique :: "'a node_scheme list \<Rightarrow> 'b node_scheme \<Rightarrow> error + unit" where
  "verify_unique table self =
     (case md5 self of
        Inl e \<Rightarrow> Inl e
      | Inr m \<Rightarrow>
          if exists table [(''md5'', m)] then Inl UniquenessError
          else
            (let other_attrs = AList.delete ''md5'' (get_attrs self)
             in if exists table other_attrs then Inl UniquenessError else Inr ()))"

subsection \<open>PotcarFileData\<close>

text \<open>
  Modelled from the spec: \<^verbatim>\<open>ArchiveData.add_file\<close> and \<^verbatim>\<open>ArchiveData.store\<close>
  (\<^verbatim>\<open>aiida_vasp/data/archive.py\<close> is not among the sources). The content store keeps
  the payload of an entity, so adding a file records it in the entity's file list, and
  storing persists the entity among the stored nodes of its class under a fresh key.
\<close>

definition ArchiveData_add_file ::
  "string \<Rightarrow> string option \<Rightarrow> potcar_file_data \<Rightarrow> potcar_file_data" where
  "ArchiveData_add_file src_abs dst_filename self =
     self\<lparr>filelist := filelist self @ [(src_abs, dst_filename)]\<rparr>"

definition ArchiveData_store :: "potcar_file_data \<Rightarrow> db \<Rightarrow> potcar_file_data \<times> db" where
  "ArchiveData_store self d =
     (let stored = self\<lparr>pk := Some (next_pk d)\<rparr>
      in (stored, d\<lparr>potcar_files := potcar_files d @ [stored], next_pk := Suc (next_pk d)\<rparr>))"

text \<open>\<^verbatim>\<open>Data.store\<close> of aiida, for a \<^verbatim>\<open>PotcarData\<close> node.\<close>

definition Data_store :: "potcar_data \<Rightarrow> db \<Rightarrow> potcar_data \<times> db" where
  "Data_store self d =
     (let stored = self\<lparr>pk := Some (next_pk d)\<rparr>
      in (stored, d\<lparr>potcars := potcars d @ [stored], next_pk := Suc (next_pk d)\<rparr>))"

text \<open>
  \<^verbatim>\<open>PotcarFileData.add_file\<close>. A node that raises while it is being built is dropped,
  so the result is either the error or the node with the file and its attributes.
\<close>

definition add_file ::
  "env \<Rightarrow> string \<Rightarrow> string option \<Rightarrow> potcar_file_data \<Rightarrow> error + potcar_file_data" where
  "add_file X src_abs dst_filename self =
     (if filelist self \<noteq> [] then Inl AttributeError
      else
        (let self1 = ArchiveData_add_file src_abs dst_filename self;
             self2 = set_attr ''md5'' (md5_file X src_abs) self1
         in case from_file X src_abs of
              Inl e \<Rightarrow> Inl e
            | Inr potcar \<Rightarrow>
                (case map_of (ps_keywords potcar) ''TITEL'' of
                   None \<Rightarrow> Inl KeyError
                 | Some titel \<Rightarrow>
                     Inr (set_attr ''symbol'' (ps_symbol potcar)
                           (set_attr ''element'' (ps_element potcar)
                             (set_attr ''functional'' (ps_functional potcar)
                               (set_attr ''title'' titel self2)))))))"

definition set_file :: "env \<Rightarrow> string \<Rightarrow> potcar_file_data \<Rightarrow> error + potcar_file_data" where
  "set_file X filepath self = add_file X filepath None self"

text \<open>A node as its constructor leaves it before any setter runs.\<close>

definition new_potcar_file_data :: potcar_file_data where
  "new_potcar_file_data = \<lparr>pk = None, attributes = [], filelist = []\<rparr>"

definition new_potcar_data :: potcar_data where
  "new_potcar_data = \<lparr>pk = None, attributes = []\<rparr>"

definition PotcarFileData_verify_unique :: "db \<Rightarrow> potcar_file_data \<Rightarrow> error + unit" where
  "PotcarFileData_verify_unique d self =
     (case md5 self of
        Inl e \<Rightarrow> Inl e
      | Inr m \<Rightarrow>
          if exists (potcar_files d) [(''md5'', m)] then Inl UniquenessError
          else
            (let other_attrs = AList.delete ''md5'' (get_attrs self)
             in if exists (potcar_files d) other_attrs then Inl UniquenessError else Inr ()))"

subsection \<open>PotcarData\<close>

definition meta_attrs :: "string list" where
  "meta_attrs = [''md5'', ''title'', ''functional'', ''element'', ''symbol'']"

fun copy_attrs :: "string list \<Rightarrow> 'a node_scheme \<Rightarrow> potcar_data \<Rightarrow> error + potcar_data" where
  "copy_attrs [] potcar_file_node self = Inr self"
| "copy_attrs (attr_name # names) potcar_file_node self =
     (case get_attr potcar_file_node attr_name of
        Inl e \<Rightarrow> Inl e
      | Inr v \<Rightarrow> copy_attrs names potcar_file_node (set_attr attr_name v self))"

definition set_potcar_file_node :: "'a node_scheme \<Rightarrow> potcar_data \<Rightarrow> error + potcar_data" where
  "set_potcar_file_node potcar_file_node self = copy_attrs meta_attrs potcar_file_node self"

definition find_file_node :: "potcar_data \<Rightarrow> db \<Rightarrow> error + potcar_file_data" where
  "find_file_node self d = find_node (potcar_files d) (get_attrs self)"

definition PotcarData_store :: "potcar_data \<Rightarrow> db \<Rightarrow> (error + potcar_data) \<times> db" where
  "PotcarData_store self d =
     (case verify_unique (potcars d) self of
        Inl e \<Rightarrow> (Inl e, d)
      | Inr _ \<Rightarrow> (case Data_store self d of (stored, d') \<Rightarrow> (Inr stored, d')))"

definition PotcarData_get_or_create ::
  "'a node_scheme \<Rightarrow> db \<Rightarrow> (error + potcar_data \<times> bool) \<times> db" where
  "PotcarData_get_or_create file_node d =
     (case md5 file_node of
        Inl e \<Rightarrow> (Inl e, d)
      | Inr m \<Rightarrow>
          if exists (potcars d) [(''md5'', m)] then
            (case find_node (potcars d) [(''md5'', m)] of
               Inl e \<Rightarrow> (Inl e, d)
             | Inr node \<Rightarrow> (Inr (node, False), d))
          else
            (case set_potcar_file_node file_node new_potcar_data of
               Inl e \<Rightarrow> (Inl e, d)
             | Inr node \<Rightarrow>
                 (case PotcarData_store node d of
                    (Inl e, d') \<Rightarrow> (Inl e, d')
                  | (Inr stored, d') \<Rightarrow> (Inr (stored, True), d'))))"

subsection \<open>Storing and ingesting a POTCAR file\<close>

definition PotcarFileData_store ::
  "potcar_file_data \<Rightarrow> db \<Rightarrow> (error + potcar_file_data) \<times> db" where
  "PotcarFileData_store self d =
     (case PotcarData_get_or_create self d of
        (Inl e, d1) \<Rightarrow> (Inl e, d1)
      | (Inr _, d1) \<Rightarrow>
          (case PotcarFileData_verify_unique d1 self of
             Inl e \<Rightarrow> (Inl e, d1)
           | Inr _ \<Rightarrow> (case ArchiveData_store self d1 of (stored, d2) \<Rightarrow> (Inr stored, d2))))"

definition PotcarFileData_get_or_create ::
  "env \<Rightarrow> string \<Rightarrow> db \<Rightarrow> (error + potcar_file_data \<times> bool) \<times> db" where
  "PotcarFileData_get_or_create X filepath d =
     (let m = md5_file X filepath
      in if exists (potcar_files d) [(''md5'', m)] then
           (case find_node (potcar_files d) [(''md5'', m)] of
              Inl e \<Rightarrow> (Inl e, d)
            | Inr node \<Rightarrow> (Inr (node, False), d))
         else
           (case set_file X filepath new_potcar_file_data of
              Inl e \<Rightarrow> (Inl e, d)
            | Inr node \<Rightarrow>
                (case PotcarFileData_store node d of
                   (Inl e, d') \<Rightarrow> (Inl e, d')
                 | (Inr stored, d') \<Rightarrow> (Inr (stored, True), d'))))"


subsection \<open>Uploading a family\<close>

text \<open>
  \<^verbatim>\<open>upload_potcar_family\<close> of \<^verbatim>\<open>data/potcar.py\<close>. The body of the function is its
  docstring and nothing more: a call reads no file, leaves the database as it is and returns
  Python's \<^verbatim>\<open>None\<close>, which is \<open>None\<close> here; a pair of counts would be \<open>Some\<close>.
\<close>

definition upload_potcar_family ::
  "string \<Rightarrow> string \<Rightarrow> string \<Rightarrow> bool \<Rightarrow> db \<Rightarrow> (error + (nat \<times> nat) option) \<times> db" where
  "upload_potcar_family folder group_name group_description stop_if_existing d = (Inr None, d)"

subsection \<open>Families of POTCAR files\<close>

text \<open>
  \<^verbatim>\<open>PotcarData.get_potcar_groups\<close> and \<^verbatim>\<open>PotcarData.get_potcar_group\<close> of
  \<^verbatim>\<open>data/potcar.py\<close>. The body of each is its docstring and nothing more: a call returns
  Python's \<^verbatim>\<open>None\<close>, which is \<open>None\<close> here, where a list of groups or a group would be
  \<open>Some\<close>.
\<close>

record group =
  name :: string
  description :: string

definition get_potcar_groups :: "string list option \<Rightarrow> string option \<Rightarrow> group list option" where
  "get_potcar_groups filter_elements user = None"

definition get_potcar_group :: "string \<Rightarrow> group option" where
  "get_potcar_group group_name = None"

subsection \<open>Command line: the description of a family\<close>

text \<open>
  \<^verbatim>\<open>try_grab_description\<close> of \<^verbatim>\<open>commands/potcar.py\<close>, the callback of the
  \<^verbatim>\<open>--desc\<close> option. The data class it asks for, \<^verbatim>\<open>get_data_class('vasp.potcar')\<close>,
  is \<^verbatim>\<open>PotcarData\<close> (plugin type \<^verbatim>\<open>data.vasp.potcar.PotcarData\<close>), so the two calls
  on it are the two functions above, \<^verbatim>\<open>get_potcar_groups\<close> with its default arguments.
  Iterating over \<^verbatim>\<open>None\<close> raises \<^verbatim>\<open>TypeError\<close>, and reading
  \<^verbatim>\<open>.description\<close> of \<^verbatim>\<open>None\<close> raises \<^verbatim>\<open>AttributeError\<close>. The option
  value is \<open>None\<close> when the option is not given, and \<^verbatim>\<open>not value\<close> holds for
  \<^verbatim>\<open>None\<close> and for the empty string. \<^verbatim>\<open>ctx.params['name']\<close> raises
  \<^verbatim>\<open>KeyError\<close> when the name is not among the parameters read so far. The argument
  \<^verbatim>\<open>param\<close> only goes into the error raised and is left out.
\<close>

definition try_grab_description :: "attrs \<Rightarrow> string option \<Rightarrow> error + string" where
  "try_grab_description ctx_params value =
     (case map_of ctx_params ''name'' of
        None \<Rightarrow> Inl KeyError
      | Some group_name \<Rightarrow>
          (case get_potcar_groups None None of
             None \<Rightarrow> Inl TypeError
           | Some existing_groups \<Rightarrow>
               (let existing_group_names = map name existing_groups;
                    no_value =
                      (if group_name \<in> set existing_group_names
                       then (case get_potcar_group group_name of
                               None \<Rightarrow> Inl AttributeError
                             | Some g \<Rightarrow> Inr (description g))
                       else Inl MissingParameter)
                in case value of
                     None \<Rightarrow> no_value
                   | Some v \<Rightarrow> if v = [] then no_value else Inr v)))"

subsection \<open>Writing and reading several POTCARs as one file\<close>

text \<open>
  Modelled from the spec: the record wrapper, \<^verbatim>\<open>RecordIO.resolve\<close> and
  \<^verbatim>\<open>MultiRecordIO\<close> (\<^verbatim>\<open>PotcarIo\<close> and \<^verbatim>\<open>MultiPotcarIo\<close> of
  \<^verbatim>\<open>aiida_vasp/io/potcar.py\<close>, which is not among the sources; only its test is).
  A wrapper has the hash of its record and, when the payload can be reached, the payload.
  Resolving raw content gives the wrapper of that content, its hash computed by the content
  hash function \<open>digest\<close>, a parameter.
\<close>

record record_wrapper =
  wrapper_hash :: string
  wrapper_content :: "string option"

definition resolve :: "(string \<Rightarrow> string) \<Rightarrow> string \<Rightarrow> record_wrapper" where
  "resolve digest payload = \<lparr>wrapper_hash = digest payload, wrapper_content = Some payload\<rparr>"

text \<open>
  Modelled from the spec: \<^verbatim>\<open>write\<close> concatenates the payloads of the wrappers in the
  order given, and fails with \<^verbatim>\<open>ContentUnavailable\<close> when a wrapper has no payload. The
  result is the content written.
\<close>

fun MultiRecordIO_write :: "record_wrapper list \<Rightarrow> error + string" where
  "MultiRecordIO_write [] = Inr []"
| "MultiRecordIO_write (w # ws) =
     (case wrapper_content w of
        None \<Rightarrow> Inl ContentUnavailable
      | Some payload \<Rightarrow>
          (case MultiRecordIO_write ws of
             Inl e \<Rightarrow> Inl e
           | Inr rest \<Rightarrow> Inr (payload @ rest)))"

text \<open>
  Modelled from the spec: \<^verbatim>\<open>read\<close> splits the content at record boundaries, each
  marked by the record's own end marker, and resolves each segment. The end marker is a
  parameter. A segment ends as soon as the text read since the last boundary ends with the
  marker; text left after the last marker is a last segment.
\<close>

definition ends_with :: "string \<Rightarrow> string \<Rightarrow> bool" where
  "ends_with marker s \<longleftrightarrow>
     length marker \<le> length s \<and> drop (length s - length marker) s = marker"

fun split_records :: "string \<Rightarrow> string \<Rightarrow> string \<Rightarrow> string list" where
  "split_records marker segment [] = (if segment = [] then [] else [segment])"
| "split_records marker segment (c # cs) =
     (if ends_with marker (segment @ [c])
      then (segment @ [c]) # split_records marker [] cs
      else split_records marker (segment @ [c]) cs)"

definition MultiRecordIO_read ::
  "(string \<Rightarrow> string) \<Rightarrow> string \<Rightarrow> string \<Rightarrow> record_wrapper list" where
  "MultiRecordIO_read digest marker source =
     map (resolve digest) (split_records marker [] source)"

text \<open>
  The payload format of the spec: a text block that ends with the end marker and holds no other
  end of record before (no shorter prefix of it ends with the marker).
\<close>

definition is_record :: "string \<Rightarrow> string \<Rightarrow> bool" where
  "is_record marker payload \<longleftrightarrow>
     ends_with marker payload
     \<and> list_all (\<lambda>n. \<not> ends_with marker (take n payload)) [0..<length payload]"

subsection \<open>Notation for the uniqueness conditions\<close>

text \<open>
  The two situations in which \<^verbatim>\<open>verify_unique\<close> raises: a stored node of the class has
  the md5 of \<open>self\<close>; a stored node has another md5 (or none) and the title, functional,
  element and symbol of \<open>self\<close>.
\<close>

abbreviation same_hash_stored :: "'a node_scheme list \<Rightarrow> 'b node_scheme \<Rightarrow> bool" where
  "same_hash_stored table self \<equiv> \<exists>r \<in> set table. md5 r = md5 self"

abbreviation same_metadata_other_hash :: "'a node_scheme list \<Rightarrow> 'b node_scheme \<Rightarrow> bool" where
  "same_metadata_other_hash table self \<equiv>
     \<exists>r \<in> set table. md5 r \<noteq> md5 self \<and> title r = title self \<and> functional r = functional self
        \<and> element r = element self \<and> symbol r = symbol self"

subsection \<open>The mapping between the two node classes\<close>

text \<open>
  The module docstring asks for a one to one mapping between \<^verbatim>\<open>PotcarData\<close> and
  \<^verbatim>\<open>PotcarFileData\<close> nodes, defined by the md5 of the file: every stored
  \<^verbatim>\<open>PotcarData\<close> has a stored \<^verbatim>\<open>PotcarFileData\<close> of its md5, and every stored
  \<^verbatim>\<open>PotcarFileData\<close> has a stored \<^verbatim>\<open>PotcarData\<close> with its five attributes.
\<close>

definition one_to_one :: "db \<Rightarrow> bool" where
  "one_to_one d \<longleftrightarrow>
     (\<forall>s \<in> set (potcars d). \<exists>f \<in> set (potcar_files d). md5 f = md5 s)
     \<and> (\<forall>f \<in> set (potcar_files d). \<exists>s \<in> set (potcars d).
           md5 s = md5 f \<and> title s = title f \<and> functional s = functional f
           \<and> element s = element f \<and> symbol s = symbol f)"

subsection \<open>Example data\<close>

text \<open>The attributes \<^verbatim>\<open>add_file\<close> gives a node for an arsenic POTCAR, and an empty database.\<close>

definition As_attrs :: attrs where
  "As_attrs = [(''md5'', ''0a1b''), (''title'', ''PAW As''), (''functional'', ''PBE''),
               (''element'', ''As''), (''symbol'', ''As'')]"

definition empty_db :: db where
  "empty_db = \<lparr>potcar_files = [], potcars = [], next_pk = 0\<rparr>"

text \<open>
  An environment in which every path holds that arsenic POTCAR: its digest, and what
  pymatgen parses from it.
\<close>

definition As_env :: env where
  "As_env = \<lparr>md5_file = (\<lambda>path. ''0a1b''),
     from_file = (\<lambda>path. Inr \<lparr>ps_keywords = [(''TITEL'', ''PAW As'')], ps_functional = ''PBE'',
        ps_element = ''As'', ps_symbol = ''As''\<rparr>)\<rparr>"

section \<open>Properties\<close>

subsection \<open>Queries\<close>



lemma satisfies_iff:
  "satisfies kwargs n \<longleftrightarrow> (\<forall>(k, v) \<in> set kwargs. map_of (attributes n) k = Some v)"
  by (simp add: satisfies_def list_all_iff)

lemma exists_iff: "exists table kwargs \<longleftrightarrow> (\<exists>r \<in> set table. satisfies kwargs r)"
  by (auto simp: exists_def count_def query_by_attrs_def filter_empty_conv Suc_le_eq)

lemma satisfies_md5: "satisfies [(''md5'', m)] r \<longleftrightarrow> md5 r = Inr m"
  by (auto simp: satisfies_def md5_def get_attr_def split: option.splits)

lemma satisfies_other:
  assumes d: "distinct (map fst (attributes self))"
    and k: "set (map fst (attributes self)) = set meta_attrs"
  shows "satisfies (AList.delete ''md5'' (get_attrs self)) r \<longleftrightarrow>
         (title r = title self \<and> functional r = functional self \<and>
          element r = element self \<and> symbol r = symbol self)"
proof -
  have sat: "satisfies (AList.delete ''md5'' (get_attrs self)) r \<longleftrightarrow>
      (\<forall>k v. k \<noteq> ''md5'' \<and> map_of (attributes self) k = Some v \<longrightarrow> map_of (attributes r) k = Some v)"
  proof -
    have "\<And>k v. (k, v) \<in> set (AList.delete ''md5'' (attributes self)) \<longleftrightarrow>
        (k \<noteq> ''md5'' \<and> map_of (attributes self) k = Some v)"
      using map_of_eq_Some_iff[OF d] by (auto simp: AList.delete_eq)
    then show ?thesis unfolding satisfies_iff get_attrs_def by fastforce
  qed
  have mem: "\<And>k. k \<in> set meta_attrs \<Longrightarrow> \<exists>v. map_of (attributes self) k = Some v"
  proof -
    fix k assume "k \<in> set meta_attrs"
    then have "k \<in> fst ` set (attributes self)" using k by simp
    then show "\<exists>v. map_of (attributes self) k = Some v"
      by (metis domD dom_map_of_conv_image_fst)
  qed
  have others: "\<And>k v. k \<noteq> ''md5'' \<Longrightarrow> map_of (attributes self) k = Some v \<Longrightarrow>
      k = ''title'' \<or> k = ''functional'' \<or> k = ''element'' \<or> k = ''symbol''"
  proof -
    fix k v assume ne: "k \<noteq> ''md5''" and "map_of (attributes self) k = Some v"
    then have "k \<in> fst ` set (attributes self)" by (metis domI dom_map_of_conv_image_fst)
    then have "k \<in> set meta_attrs" using k by simp
    with ne show "k = ''title'' \<or> k = ''functional'' \<or> k = ''element'' \<or> k = ''symbol''"
      by (simp add: meta_attrs_def)
  qed
  obtain t where t: "map_of (attributes self) ''title'' = Some t"
    using mem[of "''title''"] by (auto simp: meta_attrs_def)
  obtain f where f: "map_of (attributes self) ''functional'' = Some f"
    using mem[of "''functional''"] by (auto simp: meta_attrs_def)
  obtain e where e: "map_of (attributes self) ''element'' = Some e"
    using mem[of "''element''"] by (auto simp: meta_attrs_def)
  obtain y where y: "map_of (attributes self) ''symbol'' = Some y"
    using mem[of "''symbol''"] by (auto simp: meta_attrs_def)
  have rhs: "(title r = title self \<and> functional r = functional self \<and>
          element r = element self \<and> symbol r = symbol self) \<longleftrightarrow>
     (map_of (attributes r) ''title'' = Some t \<and> map_of (attributes r) ''functional'' = Some f \<and>
      map_of (attributes r) ''element'' = Some e \<and> map_of (attributes r) ''symbol'' = Some y)"
    by (simp add: title_def functional_def element_def symbol_def get_attr_def t f e y
        split: option.splits)
  show ?thesis
  proof
    assume "satisfies (AList.delete ''md5'' (get_attrs self)) r"
    then have a: "\<And>k v. k \<noteq> ''md5'' \<Longrightarrow> map_of (attributes self) k = Some v \<Longrightarrow>
        map_of (attributes r) k = Some v"
      using sat by blast
    have "map_of (attributes r) ''title'' = Some t" using a[OF _ t] by simp
    moreover have "map_of (attributes r) ''functional'' = Some f" using a[OF _ f] by simp
    moreover have "map_of (attributes r) ''element'' = Some e" using a[OF _ e] by simp
    moreover have "map_of (attributes r) ''symbol'' = Some y" using a[OF _ y] by simp
    ultimately show "title r = title self \<and> functional r = functional self \<and>
          element r = element self \<and> symbol r = symbol self"
      using rhs by blast
  next
    assume "title r = title self \<and> functional r = functional self \<and>
          element r = element self \<and> symbol r = symbol self"
    then have b: "map_of (attributes r) ''title'' = Some t \<and>
      map_of (attributes r) ''functional'' = Some f \<and>
      map_of (attributes r) ''element'' = Some e \<and> map_of (attributes r) ''symbol'' = Some y"
      using rhs by blast
    have "\<And>k v. k \<noteq> ''md5'' \<Longrightarrow> map_of (attributes self) k = Some v \<Longrightarrow>
        map_of (attributes r) k = Some v"
    proof -
      fix k v assume ne: "k \<noteq> ''md5''" and kv: "map_of (attributes self) k = Some v"
      from others[OF ne kv] show "map_of (attributes r) k = Some v"
        using kv b t f e y by auto
    qed
    then show "satisfies (AList.delete ''md5'' (get_attrs self)) r"
      using sat by blast
  qed
qed

text \<open>
  C7. For every attribute filter, \<^verbatim>\<open>find\<close> returns the matching node when exactly one
  stored node matches the filter, raises \<^verbatim>\<open>NotExistent\<close> when none matches, and raises
  \<^verbatim>\<open>MultipleObjectsError\<close> when more than one matches.
\<close>

theorem find_single_or_error:
  "(count (query_by_attrs table kwargs) = 1 \<longrightarrow>
      (\<exists>r. r \<in> set table \<and> satisfies kwargs r \<and> find_node table kwargs = Inr r))
   \<and> (count (query_by_attrs table kwargs) = 0 \<longrightarrow> find_node table kwargs = Inl NotExistent)
   \<and> (count (query_by_attrs table kwargs) > 1 \<longrightarrow> find_node table kwargs = Inl MultipleObjectsError)"
proof -
  let ?q = "query_by_attrs table kwargs"
  have "length ?q = 1 \<Longrightarrow> \<exists>r. r \<in> set table \<and> satisfies kwargs r \<and> find_node table kwargs = Inr r"
  proof -
    assume "length ?q = 1"
    then obtain r where r: "?q = [r]" by (cases ?q) auto
    then have "r \<in> set ?q" by simp
    then have "r \<in> set table \<and> satisfies kwargs r" by (simp add: query_by_attrs_def)
    moreover have "find_node table kwargs = Inr r" using r by (simp add: find_node_def)
    ultimately show ?thesis by blast
  qed
  moreover have "length ?q = 0 \<Longrightarrow> find_node table kwargs = Inl NotExistent"
    by (simp add: find_node_def)
  moreover have "length ?q > 1 \<Longrightarrow> find_node table kwargs = Inl MultipleObjectsError"
    by (cases ?q rule: one.cases) (auto simp: find_node_def)
  ultimately show ?thesis by (simp add: count_def)
qed

theorem find_single_or_error_witness:
  "count (query_by_attrs
      [\<lparr>pk = Some 0, attributes = [(''element'', ''As'')]\<rparr>,
       \<lparr>pk = Some 1, attributes = [(''element'', ''Ga'')]\<rparr>,
       \<lparr>pk = Some 2, attributes = [(''element'', ''As'')]\<rparr>] [(''element'', ''Ga'')]) = 1
   \<and> (\<exists>r. satisfies [(''element'', ''Ga'')] r \<and>
        find_node
          [\<lparr>pk = Some 0, attributes = [(''element'', ''As'')]\<rparr>,
           \<lparr>pk = Some 1, attributes = [(''element'', ''Ga'')]\<rparr>,
           \<lparr>pk = Some 2, attributes = [(''element'', ''As'')]\<rparr>] [(''element'', ''Ga'')] = Inr r)
   \<and> count (query_by_attrs
      [\<lparr>pk = Some 0, attributes = [(''element'', ''As'')]\<rparr>] [(''element'', ''In'')]) = 0
   \<and> find_node [\<lparr>pk = Some 0, attributes = [(''element'', ''As'')]\<rparr>] [(''element'', ''In'')]
        = Inl NotExistent
   \<and> count (query_by_attrs
      [\<lparr>pk = Some 0, attributes = [(''element'', ''As'')]\<rparr>,
       \<lparr>pk = Some 2, attributes = [(''element'', ''As'')]\<rparr>] [(''element'', ''As'')]) > 1
   \<and> find_node
        [\<lparr>pk = Some 0, attributes = [(''element'', ''As'')]\<rparr>,
         \<lparr>pk = Some 2, attributes = [(''element'', ''As'')]\<rparr>] [(''element'', ''As'')]
        = Inl MultipleObjectsError"
proof -
  have c1: "count (query_by_attrs
      [\<lparr>pk = Some 0, attributes = [(''element'', ''As'')]\<rparr>,
       \<lparr>pk = Some 1, attributes = [(''element'', ''Ga'')]\<rparr>,
       \<lparr>pk = Some 2, attributes = [(''element'', ''As'')]\<rparr>] [(''element'', ''Ga'')]) = 1"
    by (simp add: count_def query_by_attrs_def satisfies_def)
  have c0: "count (query_by_attrs
      [\<lparr>pk = Some 0, attributes = [(''element'', ''As'')]\<rparr>] [(''element'', ''In'')]) = 0"
    by (simp add: count_def query_by_attrs_def satisfies_def)
  have c2: "count (query_by_attrs
      [\<lparr>pk = Some 0, attributes = [(''element'', ''As'')]\<rparr>,
       \<lparr>pk = Some 2, attributes = [(''element'', ''As'')]\<rparr>] [(''element'', ''As'')]) > 1"
    by (simp add: count_def query_by_attrs_def satisfies_def)
  show ?thesis
    using c1 c0 c2
      find_single_or_error [of
        "[\<lparr>pk = Some 0, attributes = [(''element'', ''As'')]\<rparr>,
          \<lparr>pk = Some 1, attributes = [(''element'', ''Ga'')]\<rparr>,
          \<lparr>pk = Some 2, attributes = [(''element'', ''As'')]\<rparr>]" "[(''element'', ''Ga'')]"]
      find_single_or_error [of
        "[\<lparr>pk = Some 0, attributes = [(''element'', ''As'')]\<rparr>]" "[(''element'', ''In'')]"]
      find_single_or_error [of
        "[\<lparr>pk = Some 0, attributes = [(''element'', ''As'')]\<rparr>,
          \<lparr>pk = Some 2, attributes = [(''element'', ''As'')]\<rparr>]" "[(''element'', ''As'')]"]
    by blast
qed

subsection \<open>Uniqueness\<close>

lemma has_md5:
  assumes "set (map fst (attributes self)) = set meta_attrs"
  shows "\<exists>m. md5 self = Inr m"
proof -
  have "''md5'' \<in> fst ` set (attributes self)" using assms by (simp add: meta_attrs_def)
  then obtain m where "map_of (attributes self) ''md5'' = Some m"
    by (metis domD dom_map_of_conv_image_fst)
  then show ?thesis by (simp add: md5_def get_attr_def)
qed

lemma verify_unique_eq:
  assumes d: "distinct (map fst (attributes self))"
    and k: "set (map fst (attributes self)) = set meta_attrs"
  shows "verify_unique table self =
     (if same_hash_stored table self \<or> same_metadata_other_hash table self
      then Inl UniquenessError else Inr ())"
proof -
  obtain m where m: "md5 self = Inr m" using has_md5[OF k] by blast
  have a: "exists table [(''md5'', m)] \<longleftrightarrow> same_hash_stored table self"
    by (simp add: exists_iff satisfies_md5 m)
  have b: "exists table (AList.delete ''md5'' (get_attrs self)) \<longleftrightarrow>
      (\<exists>r \<in> set table. title r = title self \<and> functional r = functional self
        \<and> element r = element self \<and> symbol r = symbol self)"
    by (simp add: exists_iff satisfies_other[OF d k])
  show ?thesis
  proof (cases "same_hash_stored table self")
    case True
    then show ?thesis using a by (simp add: verify_unique_def m)
  next
    case False
    then have "same_metadata_other_hash table self \<longleftrightarrow>
      (\<exists>r \<in> set table. title r = title self \<and> functional r = functional self
        \<and> element r = element self \<and> symbol r = symbol self)" by blast
    then show ?thesis using False a b by (simp add: verify_unique_def m Let_def)
  qed
qed

lemma PotcarFileData_verify_unique_conv:
  "PotcarFileData_verify_unique d self = verify_unique (potcar_files d) self"
  by (simp add: PotcarFileData_verify_unique_def verify_unique_def)

lemma PotcarData_get_or_create_files:
  "PotcarData_get_or_create n d = (r, d') \<Longrightarrow> potcar_files d' = potcar_files d"
  by (auto simp: PotcarData_get_or_create_def PotcarData_store_def Data_store_def Let_def
      split: sum.splits if_splits prod.splits)

lemma As_attrs_wf:
  "distinct (map fst As_attrs)" "set (map fst As_attrs) = set meta_attrs"
  by (simp_all add: As_attrs_def meta_attrs_def)

subsection \<open>From the metadata node back to the file node\<close>

lemma satisfies_all:
  assumes d: "distinct (map fst (attributes self))"
    and k: "set (map fst (attributes self)) = set meta_attrs"
  shows "satisfies (get_attrs self) r \<longleftrightarrow>
         (md5 r = md5 self \<and> title r = title self \<and> functional r = functional self \<and>
          element r = element self \<and> symbol r = symbol self)"
proof -
  obtain m where m: "md5 self = Inr m" using has_md5[OF k] by blast
  then have mm: "map_of (attributes self) ''md5'' = Some m"
    by (simp add: md5_def get_attr_def split: option.splits)
  have split: "\<And>p. p \<in> set (attributes self) \<longleftrightarrow>
      p = (''md5'', m) \<or> p \<in> set (AList.delete ''md5'' (attributes self))"
  proof -
    fix p :: "string \<times> string"
    obtain a b where p: "p = (a, b)" by (cases p)
    have e: "(a, b) \<in> set (attributes self) \<longleftrightarrow> map_of (attributes self) a = Some b"
      using map_of_eq_Some_iff[OF d] by simp
    show "p \<in> set (attributes self) \<longleftrightarrow>
      p = (''md5'', m) \<or> p \<in> set (AList.delete ''md5'' (attributes self))"
      unfolding p using e mm by (auto simp: AList.delete_eq)
  qed
  have seteq: "set (attributes self) =
      insert (''md5'', m) (set (AList.delete ''md5'' (attributes self)))"
    using split by blast
  have "satisfies (get_attrs self) r \<longleftrightarrow>
      satisfies [(''md5'', m)] r \<and> satisfies (AList.delete ''md5'' (get_attrs self)) r"
    unfolding satisfies_iff get_attrs_def by (subst seteq) simp
  then show ?thesis
    using satisfies_other[OF d k] satisfies_md5 m by metis
qed

lemma find_node_NotExistent:
  "find_node table kwargs = Inl NotExistent \<longleftrightarrow> \<not> (\<exists>r \<in> set table. satisfies kwargs r)"
proof (cases "query_by_attrs table kwargs" rule: one.cases)
  case 1
  then show ?thesis
    by (auto simp: find_node_def query_by_attrs_def filter_empty_conv)
next
  case (2 n)
  then have "n \<in> set (query_by_attrs table kwargs)" by simp
  then show ?thesis using 2 by (auto simp: find_node_def query_by_attrs_def)
next
  case (3 n m rest)
  then have "n \<in> set (query_by_attrs table kwargs)" by simp
  then show ?thesis using 3 by (auto simp: find_node_def query_by_attrs_def)
qed

lemma find_node_Inr:
  "find_node table kwargs = Inr r \<Longrightarrow> query_by_attrs table kwargs = [r]"
  by (cases "query_by_attrs table kwargs" rule: one.cases) (auto simp: find_node_def)

lemma find_node_Inr_mem:
  "find_node table kwargs = Inr r \<Longrightarrow> r \<in> set table \<and> satisfies kwargs r"
proof -
  assume "find_node table kwargs = Inr r"
  then have "r \<in> set (query_by_attrs table kwargs)" using find_node_Inr by fastforce
  then show ?thesis by (simp add: query_by_attrs_def)
qed

lemma get_attr_set_attr:
  "get_attr (set_attr k v n) k' = (if k' = k then Inr v else get_attr n k')"
  by (simp add: get_attr_def set_attr_def update_conv')

lemma set_potcar_file_node_new:
  assumes "md5 file_node = Inr m" "title file_node = Inr t" "functional file_node = Inr f"
    "element file_node = Inr e" "symbol file_node = Inr y"
  shows "set_potcar_file_node file_node new_potcar_data =
     Inr \<lparr>pk = None, attributes = [(''md5'', m), (''title'', t), (''functional'', f),
           (''element'', e), (''symbol'', y)]\<rparr>"
  using assms
  by (simp add: set_potcar_file_node_def meta_attrs_def md5_def title_def functional_def
      element_def symbol_def new_potcar_data_def set_attr_def)

text \<open>
  C6. A \<^verbatim>\<open>PotcarData\<close> node holds no link to its \<^verbatim>\<open>PotcarFileData\<close> node:
  \<^verbatim>\<open>set_potcar_file_node\<close> leaves a new node with the five attributes md5, title,
  functional, element and symbol copied from the file node and nothing else.
  \<^verbatim>\<open>find_file_node\<close> recomputes the file node by a query of the stored
  \<^verbatim>\<open>PotcarFileData\<close> nodes with all the attributes of the metadata node; it raises
  \<^verbatim>\<open>NotExistent\<close> exactly when no stored file node has those five attributes, and a
  node it returns has them.
\<close>

theorem shadow_finds_file_by_attributes:
  fixes shadow :: potcar_data
  assumes d: "distinct (map fst (attributes shadow))"
    and k: "set (map fst (attributes shadow)) = set meta_attrs"
  shows "find_file_node shadow d = find_node (potcar_files d) (get_attrs shadow)
    \<and> (find_file_node shadow d = Inl NotExistent \<longleftrightarrow>
         \<not> (\<exists>f \<in> set (potcar_files d). md5 f = md5 shadow \<and> title f = title shadow \<and>
              functional f = functional shadow \<and> element f = element shadow \<and>
              symbol f = symbol shadow))
    \<and> (\<forall>f. find_file_node shadow d = Inr f \<longrightarrow>
         f \<in> set (potcar_files d) \<and> md5 f = md5 shadow \<and> title f = title shadow \<and>
         functional f = functional shadow \<and> element f = element shadow \<and>
         symbol f = symbol shadow)
    \<and> (\<forall>file_node m t f e y.
         md5 file_node = Inr m \<and> title file_node = Inr t \<and> functional file_node = Inr f \<and>
         element file_node = Inr e \<and> symbol file_node = Inr y \<longrightarrow>
         set_potcar_file_node (file_node :: potcar_file_data) new_potcar_data =
           Inr \<lparr>pk = None, attributes = [(''md5'', m), (''title'', t), (''functional'', f),
                 (''element'', e), (''symbol'', y)]\<rparr>)"
proof -
  have 1: "find_file_node shadow d = find_node (potcar_files d) (get_attrs shadow)"
    by (simp add: find_file_node_def)
  have 2: "find_file_node shadow d = Inl NotExistent \<longleftrightarrow>
         \<not> (\<exists>f \<in> set (potcar_files d). md5 f = md5 shadow \<and> title f = title shadow \<and>
              functional f = functional shadow \<and> element f = element shadow \<and>
              symbol f = symbol shadow)"
    unfolding find_file_node_def find_node_NotExistent satisfies_all[OF d k] ..
  have 3: "f \<in> set (potcar_files d) \<and> md5 f = md5 shadow \<and> title f = title shadow \<and>
         functional f = functional shadow \<and> element f = element shadow \<and>
         symbol f = symbol shadow" if "find_file_node shadow d = Inr f" for f
    using find_node_Inr_mem[OF that[unfolded find_file_node_def]] satisfies_all[OF d k] by blast
  show ?thesis using 1 2 3 set_potcar_file_node_new by blast
qed

theorem shadow_finds_file_by_attributes_witness:
  "distinct (map fst (attributes (\<lparr>pk = Some 0, attributes = As_attrs\<rparr> :: potcar_data)))
   \<and> set (map fst (attributes (\<lparr>pk = Some 0, attributes = As_attrs\<rparr> :: potcar_data))) = set meta_attrs
   \<and> find_file_node \<lparr>pk = Some 0, attributes = As_attrs\<rparr>
        \<lparr>potcar_files = [], potcars = [\<lparr>pk = Some 0, attributes = As_attrs\<rparr>], next_pk = 1\<rparr>
       = Inl NotExistent
   \<and> find_file_node \<lparr>pk = Some 0, attributes = As_attrs\<rparr>
        \<lparr>potcar_files = [\<lparr>pk = Some 1, attributes = As_attrs, filelist = [(''POTCAR'', None)]\<rparr>],
         potcars = [\<lparr>pk = Some 0, attributes = As_attrs\<rparr>], next_pk = 2\<rparr>
       = Inr \<lparr>pk = Some 1, attributes = As_attrs, filelist = [(''POTCAR'', None)]\<rparr>
   \<and> md5 \<lparr>pk = Some 1, attributes = As_attrs, filelist = [(''POTCAR'', None :: string option)]\<rparr>
       = md5 (\<lparr>pk = Some 0, attributes = As_attrs\<rparr> :: potcar_data)
   \<and> set_potcar_file_node
        \<lparr>pk = Some 1, attributes = As_attrs, filelist = [(''POTCAR'', None :: string option)]\<rparr>
        new_potcar_data = Inr \<lparr>pk = None, attributes = As_attrs\<rparr>"
proof -
  have w: "distinct (map fst (attributes (\<lparr>pk = Some 0, attributes = As_attrs\<rparr> :: potcar_data)))"
    "set (map fst (attributes (\<lparr>pk = Some 0, attributes = As_attrs\<rparr> :: potcar_data))) = set meta_attrs"
    using As_attrs_wf by simp_all
  note t = shadow_finds_file_by_attributes [OF w]
  have none: "\<not> (\<exists>f \<in> set (potcar_files
        \<lparr>potcar_files = [], potcars = [\<lparr>pk = Some 0, attributes = As_attrs\<rparr>], next_pk = 1\<rparr>).
      md5 f = md5 (\<lparr>pk = Some 0, attributes = As_attrs\<rparr> :: potcar_data) \<and>
      title f = title (\<lparr>pk = Some 0, attributes = As_attrs\<rparr> :: potcar_data) \<and>
      functional f = functional (\<lparr>pk = Some 0, attributes = As_attrs\<rparr> :: potcar_data) \<and>
      element f = element (\<lparr>pk = Some 0, attributes = As_attrs\<rparr> :: potcar_data) \<and>
      symbol f = symbol (\<lparr>pk = Some 0, attributes = As_attrs\<rparr> :: potcar_data))"
    by simp
  have a: "find_file_node \<lparr>pk = Some 0, attributes = As_attrs\<rparr>
        \<lparr>potcar_files = [], potcars = [\<lparr>pk = Some 0, attributes = As_attrs\<rparr>], next_pk = 1\<rparr>
       = Inl NotExistent"
    using t [THEN conjunct2, THEN conjunct1, THEN iffD2, OF none] .
  have found: "find_file_node \<lparr>pk = Some 0, attributes = As_attrs\<rparr>
        \<lparr>potcar_files = [\<lparr>pk = Some 1, attributes = As_attrs, filelist = [(''POTCAR'', None)]\<rparr>],
         potcars = [\<lparr>pk = Some 0, attributes = As_attrs\<rparr>], next_pk = 2\<rparr>
       = Inr \<lparr>pk = Some 1, attributes = As_attrs, filelist = [(''POTCAR'', None)]\<rparr>"
    by (simp add: find_file_node_def find_node_def query_by_attrs_def satisfies_def get_attrs_def
        As_attrs_def)
  have b: "md5 \<lparr>pk = Some 1, attributes = As_attrs, filelist = [(''POTCAR'', None :: string option)]\<rparr>
       = md5 (\<lparr>pk = Some 0, attributes = As_attrs\<rparr> :: potcar_data)"
    using t [THEN conjunct2, THEN conjunct2, THEN conjunct1, rule_format, OF found] by blast
  have attrs: "md5 \<lparr>pk = Some 1, attributes = As_attrs, filelist = [(''POTCAR'', None :: string option)]\<rparr> = Inr ''0a1b''
     \<and> title \<lparr>pk = Some 1, attributes = As_attrs, filelist = [(''POTCAR'', None :: string option)]\<rparr> = Inr ''PAW As''
     \<and> functional \<lparr>pk = Some 1, attributes = As_attrs, filelist = [(''POTCAR'', None :: string option)]\<rparr> = Inr ''PBE''
     \<and> element \<lparr>pk = Some 1, attributes = As_attrs, filelist = [(''POTCAR'', None :: string option)]\<rparr> = Inr ''As''
     \<and> symbol \<lparr>pk = Some 1, attributes = As_attrs, filelist = [(''POTCAR'', None :: string option)]\<rparr> = Inr ''As''"
    by (simp add: md5_def title_def functional_def element_def symbol_def get_attr_def As_attrs_def)
  have c: "set_potcar_file_node
        \<lparr>pk = Some 1, attributes = As_attrs, filelist = [(''POTCAR'', None :: string option)]\<rparr>
        new_potcar_data = Inr \<lparr>pk = None, attributes = As_attrs\<rparr>"
    using t [THEN conjunct2, THEN conjunct2, THEN conjunct2, rule_format, OF attrs]
    by (simp add: As_attrs_def)
  show ?thesis using w a found b c by simp
qed

subsection \<open>One file per file node\<close>

lemma filelist_set_attr: "filelist (set_attr k v n) = filelist n"
  by (simp add: set_attr_def)

text \<open>
  C8. \<^verbatim>\<open>add_file\<close> on a node that already holds a file raises
  \<^verbatim>\<open>AttributeError\<close> ("Can only hold one POTCAR file"). On a node without a file,
  when pymatgen parses the file and finds its TITEL, it succeeds, records the file, and sets
  md5, title, functional, element and symbol from the file; a further \<^verbatim>\<open>add_file\<close> on
  the result raises.
\<close>

theorem add_file_holds_one_payload:
  "(filelist self \<noteq> [] \<longrightarrow> add_file X src_abs dst_filename self = Inl AttributeError)
   \<and> (filelist self = [] \<and> from_file X src_abs = Inr potcar
        \<and> map_of (ps_keywords potcar) ''TITEL'' = Some titel \<longrightarrow>
      (\<exists>n. add_file X src_abs dst_filename self = Inr n
         \<and> filelist n = [(src_abs, dst_filename)]
         \<and> md5 n = Inr (md5_file X src_abs)
         \<and> title n = Inr titel
         \<and> functional n = Inr (ps_functional potcar)
         \<and> element n = Inr (ps_element potcar)
         \<and> symbol n = Inr (ps_symbol potcar)
         \<and> (\<forall>src2 dst2. add_file X src2 dst2 n = Inl AttributeError)))"
proof -
  have 1: "filelist self \<noteq> [] \<Longrightarrow> add_file X src_abs dst_filename self = Inl AttributeError"
    by (simp add: add_file_def)
  have 2: "\<exists>n. add_file X src_abs dst_filename self = Inr n
         \<and> filelist n = [(src_abs, dst_filename)]
         \<and> md5 n = Inr (md5_file X src_abs)
         \<and> title n = Inr titel
         \<and> functional n = Inr (ps_functional potcar)
         \<and> element n = Inr (ps_element potcar)
         \<and> symbol n = Inr (ps_symbol potcar)
         \<and> (\<forall>src2 dst2. add_file X src2 dst2 n = Inl AttributeError)"
    if e: "filelist self = []" and p: "from_file X src_abs = Inr potcar"
      and t: "map_of (ps_keywords potcar) ''TITEL'' = Some titel"
  proof -
    define n where "n = set_attr ''symbol'' (ps_symbol potcar)
        (set_attr ''element'' (ps_element potcar)
          (set_attr ''functional'' (ps_functional potcar)
            (set_attr ''title'' titel
              (set_attr ''md5'' (md5_file X src_abs)
                (ArchiveData_add_file src_abs dst_filename self)))))"
    have r: "add_file X src_abs dst_filename self = Inr n"
      by (simp add: add_file_def e p t n_def Let_def)
    have f: "filelist n = [(src_abs, dst_filename)]"
      by (simp add: n_def filelist_set_attr ArchiveData_add_file_def e)
    have a: "md5 n = Inr (md5_file X src_abs)" "title n = Inr titel"
      "functional n = Inr (ps_functional potcar)" "element n = Inr (ps_element potcar)"
      "symbol n = Inr (ps_symbol potcar)"
      by (simp_all add: n_def md5_def title_def functional_def element_def symbol_def
          get_attr_set_attr)
    have s: "\<forall>src2 dst2. add_file X src2 dst2 n = Inl AttributeError"
      using f by (simp add: add_file_def)
    show ?thesis using r f a s by blast
  qed
  show ?thesis using 1 2 by blast
qed

theorem add_file_holds_one_payload_witness:
  "filelist new_potcar_file_data = []
   \<and> from_file As_env ''POTCAR'' = Inr \<lparr>ps_keywords = [(''TITEL'', ''PAW As'')],
        ps_functional = ''PBE'', ps_element = ''As'', ps_symbol = ''As''\<rparr>
   \<and> (\<exists>n. add_file As_env ''POTCAR'' None new_potcar_file_data = Inr n
        \<and> filelist n = [(''POTCAR'', None)]
        \<and> md5 n = Inr ''0a1b'' \<and> title n = Inr ''PAW As'' \<and> functional n = Inr ''PBE''
        \<and> element n = Inr ''As'' \<and> symbol n = Inr ''As''
        \<and> filelist n \<noteq> []
        \<and> add_file As_env ''POTCAR'' None n = Inl AttributeError)"
proof -
  have h: "filelist new_potcar_file_data = [] \<and>
     from_file As_env ''POTCAR'' = Inr \<lparr>ps_keywords = [(''TITEL'', ''PAW As'')],
        ps_functional = ''PBE'', ps_element = ''As'', ps_symbol = ''As''\<rparr> \<and>
     map_of (ps_keywords \<lparr>ps_keywords = [(''TITEL'', ''PAW As'')],
        ps_functional = ''PBE'', ps_element = ''As'', ps_symbol = ''As''\<rparr>) ''TITEL'' = Some ''PAW As''"
    by (simp add: new_potcar_file_data_def As_env_def)
  from add_file_holds_one_payload [THEN conjunct2, rule_format, OF h, of None]
  obtain n where n: "add_file As_env ''POTCAR'' None new_potcar_file_data = Inr n"
    "filelist n = [(''POTCAR'', None)]" "md5 n = Inr (md5_file As_env ''POTCAR'')"
    "title n = Inr ''PAW As''" "functional n = Inr ''PBE''" "element n = Inr ''As''"
    "symbol n = Inr ''As''"
    by auto
  have ne: "filelist n \<noteq> []" using n(2) by simp
  have "add_file As_env ''POTCAR'' None n = Inl AttributeError"
    using add_file_holds_one_payload [THEN conjunct1, rule_format, OF ne] .
  then show ?thesis using h n ne by (simp add: As_env_def)
qed

subsection \<open>Get or create\<close>

lemma query_single:
  assumes "query_by_attrs table kwargs = [x]"
  shows "exists table kwargs" "find_node table kwargs = Inr x"
  using assms by (simp_all add: exists_def count_def find_node_def)

lemma query_append:
  "query_by_attrs (table @ [n]) kwargs =
     query_by_attrs table kwargs @ (if satisfies kwargs n then [n] else [])"
  by (simp add: query_by_attrs_def)

lemma not_exists_query: "\<not> exists table kwargs \<Longrightarrow> query_by_attrs table kwargs = []"
  by (cases "query_by_attrs table kwargs") (simp_all add: exists_def count_def)

lemma satisfies_pk: "satisfies kwargs (n\<lparr>pk := p\<rparr>) = satisfies kwargs n"
  by (simp add: satisfies_def)

lemma md5_pk: "md5 (n\<lparr>pk := p\<rparr>) = md5 n"
  by (simp add: md5_def get_attr_def)

lemma copy_attrs_md5:
  "copy_attrs names fn self = Inr s \<Longrightarrow> ''md5'' \<notin> set names \<Longrightarrow> md5 s = md5 self"
proof (induction names arbitrary: self)
  case Nil
  then show ?case by simp
next
  case (Cons a names)
  then show ?case
    by (auto simp: md5_def get_attr_set_attr split: sum.splits)
qed

lemma set_potcar_file_node_md5:
  assumes "set_potcar_file_node fn self = Inr s"
  shows "md5 s = md5 fn"
proof -
  from assms obtain m where m: "get_attr fn ''md5'' = Inr m"
    and c: "copy_attrs [''title'', ''functional'', ''element'', ''symbol''] fn
              (set_attr ''md5'' m self) = Inr s"
    by (auto simp: set_potcar_file_node_def meta_attrs_def split: sum.splits)
  have "md5 s = md5 (set_attr ''md5'' m self)"
    by (rule copy_attrs_md5[OF c]) simp
  then show ?thesis using m by (simp add: md5_def get_attr_set_attr)
qed

lemma PotcarData_get_or_create_result:
  assumes g: "PotcarData_get_or_create fn d = (Inr (s, c), d')"
    and m: "md5 fn = Inr m"
  shows "query_by_attrs (potcars d') [(''md5'', m)] = [s]"
proof (cases "exists (potcars d) [(''md5'', m)]")
  case True
  with g m have "find_node (potcars d) [(''md5'', m)] = Inr s" "d' = d"
    by (auto simp: PotcarData_get_or_create_def split: sum.splits)
  then show ?thesis using find_node_Inr by blast
next
  case False
  with g m obtain node stored where n: "set_potcar_file_node fn new_potcar_data = Inr node"
    and st: "PotcarData_store node d = (Inr stored, d')" and s: "s = stored"
    by (auto simp: PotcarData_get_or_create_def split: sum.splits prod.splits)
  from st have stored: "stored = node\<lparr>pk := Some (next_pk d)\<rparr>"
    and d': "potcars d' = potcars d @ [stored]"
    by (auto simp: PotcarData_store_def Data_store_def Let_def split: sum.splits)
  have "md5 node = Inr m" using set_potcar_file_node_md5[OF n] m by simp
  then have "satisfies [(''md5'', m)] stored"
    by (simp add: stored satisfies_pk satisfies_md5)
  then show ?thesis
    using not_exists_query[OF False] by (simp add: d' query_append s)
qed

lemma add_file_md5:
  "add_file X src dst self = Inr n \<Longrightarrow> md5 n = Inr (md5_file X src)"
  by (auto simp: add_file_def Let_def md5_def get_attr_set_attr split: if_splits sum.splits option.splits)

lemma PotcarFileData_store_result:
  assumes "PotcarFileData_store self d = (Inr stored, d')"
  shows "\<exists>d1 r. PotcarData_get_or_create self d = (Inr r, d1)
      \<and> PotcarFileData_verify_unique d1 self = Inr ()
      \<and> stored = self\<lparr>pk := Some (next_pk d1)\<rparr>
      \<and> d' = d1\<lparr>potcar_files := potcar_files d1 @ [stored], next_pk := Suc (next_pk d1)\<rparr>"
  using assms
  by (auto simp: PotcarFileData_store_def ArchiveData_store_def Let_def
      split: sum.splits prod.splits)

lemma PotcarFileData_get_or_create_result:
  assumes g: "PotcarFileData_get_or_create X filepath d = (Inr (f, c), d')"
  shows "query_by_attrs (potcar_files d') [(''md5'', md5_file X filepath)] = [f]"
proof (cases "exists (potcar_files d) [(''md5'', md5_file X filepath)]")
  case True
  with g have "find_node (potcar_files d) [(''md5'', md5_file X filepath)] = Inr f" "d' = d"
    by (auto simp: PotcarFileData_get_or_create_def Let_def split: sum.splits)
  then show ?thesis using find_node_Inr by blast
next
  case False
  with g obtain node where n: "set_file X filepath new_potcar_file_data = Inr node"
    and st: "PotcarFileData_store node d = (Inr f, d')"
    by (auto simp: PotcarFileData_get_or_create_def Let_def split: sum.splits prod.splits)
  from PotcarFileData_store_result[OF st] obtain d1 r where
    g1: "PotcarData_get_or_create node d = (Inr r, d1)"
    and f: "f = node\<lparr>pk := Some (next_pk d1)\<rparr>"
    and d': "d' = d1\<lparr>potcar_files := potcar_files d1 @ [f], next_pk := Suc (next_pk d1)\<rparr>"
    by blast
  have files: "potcar_files d1 = potcar_files d"
    by (rule PotcarData_get_or_create_files[OF g1])
  have "md5 node = Inr (md5_file X filepath)"
    using n add_file_md5 by (simp add: set_file_def)
  then have "satisfies [(''md5'', md5_file X filepath)] f"
    by (simp add: f satisfies_pk satisfies_md5)
  then show ?thesis
    using not_exists_query[OF False] by (simp add: d' files query_append)
qed

lemma set_potcar_file_node_Inr:
  assumes "set_potcar_file_node fn new_potcar_data = Inr node"
  shows "\<exists>m t f e y. md5 fn = Inr m \<and> title fn = Inr t \<and> functional fn = Inr f \<and>
      element fn = Inr e \<and> symbol fn = Inr y \<and>
      node = \<lparr>pk = None, attributes = [(''md5'', m), (''title'', t), (''functional'', f),
           (''element'', e), (''symbol'', y)]\<rparr>"
  using assms
  by (auto simp: set_potcar_file_node_def meta_attrs_def md5_def title_def functional_def
      element_def symbol_def new_potcar_data_def set_attr_def split: sum.splits)

lemma meta_of_attrs:
  "md5 \<lparr>pk = p, attributes = [(''md5'', m), (''title'', t), (''functional'', f),
           (''element'', e), (''symbol'', y)]\<rparr> = Inr m"
  "title \<lparr>pk = p, attributes = [(''md5'', m), (''title'', t), (''functional'', f),
           (''element'', e), (''symbol'', y)]\<rparr> = Inr t"
  "functional \<lparr>pk = p, attributes = [(''md5'', m), (''title'', t), (''functional'', f),
           (''element'', e), (''symbol'', y)]\<rparr> = Inr f"
  "element \<lparr>pk = p, attributes = [(''md5'', m), (''title'', t), (''functional'', f),
           (''element'', e), (''symbol'', y)]\<rparr> = Inr e"
  "symbol \<lparr>pk = p, attributes = [(''md5'', m), (''title'', t), (''functional'', f),
           (''element'', e), (''symbol'', y)]\<rparr> = Inr y"
  by (simp_all add: md5_def title_def functional_def element_def symbol_def get_attr_def)

text \<open>
  The nodes the code builds carry exactly the five metadata attributes: a file node after
  \<^verbatim>\<open>add_file\<close> on a new node, and a metadata node after
  \<^verbatim>\<open>set_potcar_file_node\<close> on a new node.
\<close>

lemma add_file_new_attrs:
  assumes "add_file X src_abs dst_filename new_potcar_file_data = Inr n"
  shows "distinct (map fst (attributes n))" "set (map fst (attributes n)) = set meta_attrs"
  using assms
  by (auto simp: add_file_def new_potcar_file_data_def ArchiveData_add_file_def set_attr_def
      Let_def meta_attrs_def split: sum.splits option.splits)

lemma set_potcar_file_node_new_attrs:
  assumes "set_potcar_file_node file_node new_potcar_data = Inr n"
  shows "distinct (map fst (attributes n))" "set (map fst (attributes n)) = set meta_attrs"
  using set_potcar_file_node_Inr[OF assms] by (auto simp: meta_attrs_def)

text \<open>The example: ingesting the arsenic POTCAR into the empty database.\<close>

lemma As_shadow_created:
  "PotcarData_get_or_create \<lparr>pk = None, attributes = As_attrs, filelist = [(''POTCAR'', None)]\<rparr>
        empty_db =
       (Inr (\<lparr>pk = Some 0, attributes = As_attrs\<rparr>, True),
        \<lparr>potcar_files = [], potcars = [\<lparr>pk = Some 0, attributes = As_attrs\<rparr>], next_pk = 1\<rparr>)"
  by (simp add: PotcarData_get_or_create_def md5_def get_attr_def As_attrs_def empty_db_def
        exists_def count_def query_by_attrs_def set_potcar_file_node_def meta_attrs_def
        new_potcar_data_def set_attr_def PotcarData_store_def verify_unique_def Data_store_def
        get_attrs_def Let_def)

lemma As_file_stored:
  "PotcarFileData_store \<lparr>pk = None, attributes = As_attrs, filelist = [(''POTCAR'', None)]\<rparr>
        empty_db =
       (Inr \<lparr>pk = Some 1, attributes = As_attrs, filelist = [(''POTCAR'', None)]\<rparr>,
        \<lparr>potcar_files = [\<lparr>pk = Some 1, attributes = As_attrs, filelist = [(''POTCAR'', None)]\<rparr>],
         potcars = [\<lparr>pk = Some 0, attributes = As_attrs\<rparr>], next_pk = 2\<rparr>)"
proof -
  have "PotcarFileData_verify_unique
      \<lparr>potcar_files = [], potcars = [\<lparr>pk = Some 0, attributes = As_attrs\<rparr>], next_pk = 1\<rparr>
      \<lparr>pk = None, attributes = As_attrs, filelist = [(''POTCAR'', None)]\<rparr> = Inr ()"
    by (simp add: PotcarFileData_verify_unique_def md5_def get_attr_def exists_def count_def
        query_by_attrs_def get_attrs_def As_attrs_def)
  then show ?thesis
    by (simp add: PotcarFileData_store_def As_shadow_created ArchiveData_store_def Let_def)
qed

lemma As_file_built:
  "set_file As_env ''POTCAR'' new_potcar_file_data =
     Inr \<lparr>pk = None, attributes = As_attrs, filelist = [(''POTCAR'', None)]\<rparr>"
  by (simp add: set_file_def add_file_def new_potcar_file_data_def As_env_def Let_def
      ArchiveData_add_file_def set_attr_def As_attrs_def)

lemma As_file_created:
  "PotcarFileData_get_or_create As_env ''POTCAR'' empty_db =
       (Inr (\<lparr>pk = Some 1, attributes = As_attrs, filelist = [(''POTCAR'', None)]\<rparr>, True),
        \<lparr>potcar_files = [\<lparr>pk = Some 1, attributes = As_attrs, filelist = [(''POTCAR'', None)]\<rparr>],
         potcars = [\<lparr>pk = Some 0, attributes = As_attrs\<rparr>], next_pk = 2\<rparr>)"
proof -
  have "\<not> exists (potcar_files empty_db) [(''md5'', md5_file As_env ''POTCAR'')]"
    by (simp add: empty_db_def exists_def count_def query_by_attrs_def)
  then show ?thesis
    by (simp add: PotcarFileData_get_or_create_def Let_def As_file_built As_file_stored)
qed

lemma As_shadow_found:
  "PotcarData_get_or_create \<lparr>pk = Some 1, attributes = As_attrs, filelist = [(''POTCAR'', None)]\<rparr>
        \<lparr>potcar_files = [\<lparr>pk = Some 1, attributes = As_attrs, filelist = [(''POTCAR'', None)]\<rparr>],
         potcars = [\<lparr>pk = Some 0, attributes = As_attrs\<rparr>], next_pk = 2\<rparr> =
       (Inr (\<lparr>pk = Some 0, attributes = As_attrs\<rparr>, False),
        \<lparr>potcar_files = [\<lparr>pk = Some 1, attributes = As_attrs, filelist = [(''POTCAR'', None)]\<rparr>],
         potcars = [\<lparr>pk = Some 0, attributes = As_attrs\<rparr>], next_pk = 2\<rparr>)"
  by (simp add: PotcarData_get_or_create_def md5_def get_attr_def As_attrs_def
        exists_def count_def query_by_attrs_def find_node_def satisfies_def)

text \<open>
  C2. Reading a POTCAR file into the database is \<^verbatim>\<open>PotcarFileData.get_or_create\<close> of the
  file followed by \<^verbatim>\<open>PotcarData.get_or_create\<close> of the file node. Once both have
  returned for a file, doing both again returns the same file node and the same
  \<^verbatim>\<open>PotcarData\<close> node (whose md5 is the digest of the file), both with
  \<open>created = False\<close>, and leaves the database as it is: each node is found by its md5 and
  nothing is stored.
\<close>

theorem ingest_twice_reuses_nodes:
  assumes first_file: "PotcarFileData_get_or_create X filepath d = (Inr (file_node, c1), d1)"
    and first_potcar: "PotcarData_get_or_create file_node d1 = (Inr (potcar, c2), d2)"
  shows "PotcarFileData_get_or_create X filepath d2 = (Inr (file_node, False), d2)
    \<and> PotcarData_get_or_create file_node d2 = (Inr (potcar, False), d2)
    \<and> md5 potcar = Inr (md5_file X filepath)"
proof -
  let ?m = "md5_file X filepath"
  have qf: "query_by_attrs (potcar_files d1) [(''md5'', ?m)] = [file_node]"
    by (rule PotcarFileData_get_or_create_result[OF first_file])
  then have "file_node \<in> set (query_by_attrs (potcar_files d1) [(''md5'', ?m)])" by simp
  then have m: "md5 file_node = Inr ?m"
    by (simp add: query_by_attrs_def satisfies_md5)
  have qp: "query_by_attrs (potcars d2) [(''md5'', ?m)] = [potcar]"
    by (rule PotcarData_get_or_create_result[OF first_potcar m])
  have files: "potcar_files d2 = potcar_files d1"
    by (rule PotcarData_get_or_create_files[OF first_potcar])
  have 1: "PotcarFileData_get_or_create X filepath d2 = (Inr (file_node, False), d2)"
    using query_single[OF qf[folded files]]
    by (simp add: PotcarFileData_get_or_create_def Let_def)
  have 2: "PotcarData_get_or_create file_node d2 = (Inr (potcar, False), d2)"
    using query_single[OF qp] by (simp add: PotcarData_get_or_create_def m)
  have "potcar \<in> set (query_by_attrs (potcars d2) [(''md5'', ?m)])" using qp by simp
  then have 3: "md5 potcar = Inr ?m" by (simp add: query_by_attrs_def satisfies_md5)
  show ?thesis using 1 2 3 by simp
qed

theorem ingest_twice_reuses_nodes_witness:
  "PotcarFileData_get_or_create As_env ''POTCAR'' empty_db =
       (Inr (\<lparr>pk = Some 1, attributes = As_attrs, filelist = [(''POTCAR'', None)]\<rparr>, True),
        \<lparr>potcar_files = [\<lparr>pk = Some 1, attributes = As_attrs, filelist = [(''POTCAR'', None)]\<rparr>],
         potcars = [\<lparr>pk = Some 0, attributes = As_attrs\<rparr>], next_pk = 2\<rparr>)
   \<and> PotcarData_get_or_create
        \<lparr>pk = Some 1, attributes = As_attrs, filelist = [(''POTCAR'', None)]\<rparr>
        \<lparr>potcar_files = [\<lparr>pk = Some 1, attributes = As_attrs, filelist = [(''POTCAR'', None)]\<rparr>],
         potcars = [\<lparr>pk = Some 0, attributes = As_attrs\<rparr>], next_pk = 2\<rparr> =
       (Inr (\<lparr>pk = Some 0, attributes = As_attrs\<rparr>, False),
        \<lparr>potcar_files = [\<lparr>pk = Some 1, attributes = As_attrs, filelist = [(''POTCAR'', None)]\<rparr>],
         potcars = [\<lparr>pk = Some 0, attributes = As_attrs\<rparr>], next_pk = 2\<rparr>)
   \<and> PotcarFileData_get_or_create As_env ''POTCAR''
        \<lparr>potcar_files = [\<lparr>pk = Some 1, attributes = As_attrs, filelist = [(''POTCAR'', None)]\<rparr>],
         potcars = [\<lparr>pk = Some 0, attributes = As_attrs\<rparr>], next_pk = 2\<rparr> =
       (Inr (\<lparr>pk = Some 1, attributes = As_attrs, filelist = [(''POTCAR'', None)]\<rparr>, False),
        \<lparr>potcar_files = [\<lparr>pk = Some 1, attributes = As_attrs, filelist = [(''POTCAR'', None)]\<rparr>],
         potcars = [\<lparr>pk = Some 0, attributes = As_attrs\<rparr>], next_pk = 2\<rparr>)
   \<and> md5 (\<lparr>pk = Some 0, attributes = As_attrs\<rparr> :: potcar_data) = Inr (md5_file As_env ''POTCAR'')"
  using ingest_twice_reuses_nodes [OF As_file_created As_shadow_found]
    As_file_created As_shadow_found
  by simp

text \<open>
  The mapping between the two classes is kept by the operations that store nodes: it holds in
  the empty database, \<^verbatim>\<open>PotcarFileData.store\<close> and
  \<^verbatim>\<open>PotcarFileData.get_or_create\<close> keep it whether they return or raise, and
  \<^verbatim>\<open>PotcarData.get_or_create\<close> of a stored file node then changes nothing.
\<close>

lemma meta_pk:
  "title (n\<lparr>pk := p\<rparr>) = title n" "functional (n\<lparr>pk := p\<rparr>) = functional n"
  "element (n\<lparr>pk := p\<rparr>) = element n" "symbol (n\<lparr>pk := p\<rparr>) = symbol n"
  by (simp_all add: title_def functional_def element_def symbol_def get_attr_def)

lemma one_to_one_empty: "one_to_one empty_db"
  by (simp add: one_to_one_def empty_db_def)

lemma node_wf:
  "distinct (map fst (attributes (\<lparr>pk = p, attributes = [(''md5'', m), (''title'', t),
      (''functional'', f), (''element'', e), (''symbol'', y)]\<rparr> :: potcar_data)))"
  "set (map fst (attributes (\<lparr>pk = p, attributes = [(''md5'', m), (''title'', t),
      (''functional'', f), (''element'', e), (''symbol'', y)]\<rparr> :: potcar_data))) = set meta_attrs"
  by (simp_all add: meta_attrs_def)

lemma store_keeps_one_to_one:
  assumes inv: "one_to_one d"
    and st: "PotcarFileData_store self d = (r, d')"
  shows "one_to_one d'"
proof (cases "PotcarData_get_or_create self d")
  case (Pair g d1)
  show ?thesis
  proof (cases g)
    case (Inl e)
    have unchanged: "d1 = d"
    proof (cases "md5 self")
      case (Inl a)
      then show ?thesis using Pair by (simp add: PotcarData_get_or_create_def)
    next
      case (Inr m)
      show ?thesis
      proof (cases "exists (potcars d) [(''md5'', m)]")
        case True
        then show ?thesis using Pair Inr
          by (auto simp: PotcarData_get_or_create_def split: sum.splits)
      next
        case False
        then show ?thesis using Pair Inr Inl
          by (auto simp: PotcarData_get_or_create_def PotcarData_store_def Data_store_def Let_def
              split: sum.splits prod.splits)
      qed
    qed
    have "d' = d1" using st Pair Inl by (simp add: PotcarFileData_store_def)
    then show ?thesis using inv unchanged by simp
  next
    case (Inr sc)
    obtain m where m: "md5 self = Inr m"
      using Pair Inr by (cases "md5 self") (auto simp: PotcarData_get_or_create_def)
    have files: "potcar_files d1 = potcar_files d"
      using PotcarData_get_or_create_files Pair by blast
    show ?thesis
    proof (cases "exists (potcars d) [(''md5'', m)]")
      case True
      then have d1: "d1 = d" using Pair m
        by (auto simp: PotcarData_get_or_create_def split: sum.splits)
      from True obtain s where "s \<in> set (potcars d)" "md5 s = Inr m"
        by (auto simp: exists_iff satisfies_md5)
      with inv obtain f where "f \<in> set (potcar_files d)" "md5 f = Inr m"
        unfolding one_to_one_def by force
      then have "exists (potcar_files d) [(''md5'', m)]"
        by (auto simp: exists_iff satisfies_md5)
      then have "PotcarFileData_verify_unique d self = Inl UniquenessError"
        by (simp add: PotcarFileData_verify_unique_def m)
      then have "d' = d" using st Pair Inr d1 by (simp add: PotcarFileData_store_def)
      then show ?thesis using inv by simp
    next
      case False
      with Pair Inr m obtain node shadow where
        n: "set_potcar_file_node self new_potcar_data = Inr node"
        and ps: "PotcarData_store node d = (Inr shadow, d1)"
        by (auto simp: PotcarData_get_or_create_def split: sum.splits prod.splits)
      from set_potcar_file_node_Inr[OF n] obtain m' t f e y where
        a: "md5 self = Inr m'" "title self = Inr t" "functional self = Inr f"
          "element self = Inr e" "symbol self = Inr y"
        and node: "node = \<lparr>pk = None, attributes = [(''md5'', m'), (''title'', t),
            (''functional'', f), (''element'', e), (''symbol'', y)]\<rparr>"
        by blast
      have na: "md5 node = Inr m" "title node = Inr t" "functional node = Inr f"
        "element node = Inr e" "symbol node = Inr y"
        using a(1) m by (simp_all add: node meta_of_attrs)
      have vu: "verify_unique (potcars d) node = Inr ()"
        using ps by (auto simp: PotcarData_store_def split: sum.splits)
      have nocoll: "\<not> same_metadata_other_hash (potcars d) node"
      proof
        assume c: "same_metadata_other_hash (potcars d) node"
        have "verify_unique (potcars d) node = Inl UniquenessError"
          using verify_unique_eq[OF node_wf[of None m' t f e y], folded node, of "potcars d"] c
          by simp
        with vu show False by simp
      qed
      from ps have shadow: "shadow = node\<lparr>pk := Some (next_pk d)\<rparr>"
        and p1: "potcars d1 = potcars d @ [shadow]"
        by (auto simp: PotcarData_store_def Data_store_def Let_def split: sum.splits)
      have sa: "md5 shadow = Inr m" "title shadow = Inr t" "functional shadow = Inr f"
        "element shadow = Inr e" "symbol shadow = Inr y"
        using na by (simp_all add: shadow md5_pk meta_pk)
      have no_file: "\<not> exists (potcar_files d1) [(''md5'', m)]"
      proof
        assume "exists (potcar_files d1) [(''md5'', m)]"
        then obtain fl where "fl \<in> set (potcar_files d)" "md5 fl = Inr m"
          by (auto simp: exists_iff satisfies_md5 files)
        with inv obtain s where "s \<in> set (potcars d)" "md5 s = Inr m"
          unfolding one_to_one_def by force
        then have "exists (potcars d) [(''md5'', m)]"
          by (auto simp: exists_iff satisfies_md5)
        with False show False by simp
      qed
      have inv1: "(\<forall>fl \<in> set (potcar_files d1). \<exists>s \<in> set (potcars d1).
           md5 s = md5 fl \<and> title s = title fl \<and> functional s = functional fl
           \<and> element s = element fl \<and> symbol s = symbol fl)"
        using inv unfolding one_to_one_def files p1 by auto
      show ?thesis
      proof (cases "PotcarFileData_verify_unique d1 self")
        case (Inl e')
        then have d': "d' = d1" using st Pair Inr by (simp add: PotcarFileData_store_def)
        have e': "e' = UniquenessError"
          using Inl no_file
          by (auto simp: PotcarFileData_verify_unique_def m Let_def split: if_splits)
        have "exists (potcar_files d1) (AList.delete ''md5'' (get_attrs self))"
          using Inl no_file
          by (auto simp: PotcarFileData_verify_unique_def m Let_def split: if_splits)
        then obtain fl where fl: "fl \<in> set (potcar_files d)"
          and sat: "satisfies (AList.delete ''md5'' (get_attrs self)) fl"
          by (auto simp: exists_iff files)
        from inv fl obtain s where s: "s \<in> set (potcars d)" "md5 s = md5 fl"
          "title s = title fl" "functional s = functional fl" "element s = element fl"
          "symbol s = symbol fl"
          unfolding one_to_one_def by blast
        have ne: "md5 fl \<noteq> Inr m"
          using no_file fl by (auto simp: exists_iff satisfies_md5 files)
        have others: "\<And>k v. k \<noteq> ''md5'' \<Longrightarrow> get_attr self k = Inr v \<Longrightarrow> get_attr fl k = Inr v"
        proof -
          fix k v assume k: "k \<noteq> ''md5''" and g: "get_attr self k = Inr v"
          then have "map_of (attributes self) k = Some v"
            by (simp add: get_attr_def split: option.splits)
          then have "(k, v) \<in> set (attributes self)" by (rule map_of_SomeD)
          then have "(k, v) \<in> set (AList.delete ''md5'' (get_attrs self))"
            using k by (auto simp: AList.delete_eq get_attrs_def)
          then have "map_of (attributes fl) k = Some v"
            using sat unfolding satisfies_iff by blast
          then show "get_attr fl k = Inr v" by (simp add: get_attr_def)
        qed
        have "title fl = Inr t" "functional fl = Inr f" "element fl = Inr e" "symbol fl = Inr y"
          using a others by (simp_all add: title_def functional_def element_def symbol_def)
        then have "md5 s \<noteq> md5 node \<and> title s = title node \<and> functional s = functional node
            \<and> element s = element node \<and> symbol s = symbol node"
          using s ne na by simp
        then have "same_metadata_other_hash (potcars d) node" using s(1) by blast
        with nocoll show ?thesis by simp
      next
        case (Inr u)
        define stored where "stored = self\<lparr>pk := Some (next_pk d1)\<rparr>"
        have d': "d' = d1\<lparr>potcar_files := potcar_files d1 @ [stored],
            next_pk := Suc (next_pk d1)\<rparr>"
          using st Pair \<open>g = Inr sc\<close> Inr
          by (simp add: PotcarFileData_store_def ArchiveData_store_def Let_def stored_def)
        have fa: "md5 stored = Inr m" "title stored = Inr t" "functional stored = Inr f"
          "element stored = Inr e" "symbol stored = Inr y"
          using a m by (simp_all add: stored_def md5_pk meta_pk)
        have pd: "potcars d' = potcars d @ [shadow]"
          and fd: "potcar_files d' = potcar_files d @ [stored]"
          by (simp_all add: d' p1 files)
        have j: "\<forall>s \<in> set (potcars d'). \<exists>fl \<in> set (potcar_files d'). md5 fl = md5 s"
          using inv fa(1) sa(1) unfolding one_to_one_def pd fd by auto
        have j': "\<forall>fl \<in> set (potcar_files d'). \<exists>s \<in> set (potcars d').
           md5 s = md5 fl \<and> title s = title fl \<and> functional s = functional fl
           \<and> element s = element fl \<and> symbol s = symbol fl"
        proof
          fix fl assume "fl \<in> set (potcar_files d')"
          then consider "fl \<in> set (potcar_files d)" | "fl = stored" by (auto simp: fd)
          then show "\<exists>s \<in> set (potcars d').
           md5 s = md5 fl \<and> title s = title fl \<and> functional s = functional fl
           \<and> element s = element fl \<and> symbol s = symbol fl"
          proof cases
            case 1
            with inv obtain s where "s \<in> set (potcars d)" "md5 s = md5 fl"
              "title s = title fl" "functional s = functional fl" "element s = element fl"
              "symbol s = symbol fl"
              unfolding one_to_one_def by blast
            then show ?thesis unfolding pd by auto
          next
            case 2
            have "shadow \<in> set (potcars d')" by (simp add: pd)
            then show ?thesis using 2 fa sa by auto
          qed
        qed
        show ?thesis unfolding one_to_one_def using j j' by blast
      qed
    qed
  qed
qed

lemma PotcarFileData_get_or_create_keeps_one_to_one:
  assumes inv: "one_to_one d"
    and g: "PotcarFileData_get_or_create X filepath d = (r, d')"
  shows "one_to_one d'"
proof (cases "exists (potcar_files d) [(''md5'', md5_file X filepath)]")
  case True
  then have "d' = d" using g
    by (auto simp: PotcarFileData_get_or_create_def Let_def split: sum.splits)
  then show ?thesis using inv by simp
next
  case False
  show ?thesis
  proof (cases "set_file X filepath new_potcar_file_data")
    case (Inl e)
    then have "d' = d" using g False by (simp add: PotcarFileData_get_or_create_def Let_def)
    then show ?thesis using inv by simp
  next
    case (Inr node)
    obtain r1 where "PotcarFileData_store node d = (r1, d')"
      using g False Inr
      by (cases "PotcarFileData_store node d")
        (auto simp: PotcarFileData_get_or_create_def Let_def split: sum.splits)
    then show ?thesis using store_keeps_one_to_one[OF inv] by blast
  qed
qed

lemma PotcarData_get_or_create_keeps_one_to_one:
  assumes inv: "one_to_one d"
    and f: "file_node \<in> set (potcar_files d)"
    and g: "PotcarData_get_or_create file_node d = (r, d')"
  shows "d' = d"
proof (cases "md5 file_node")
  case (Inl e)
  then show ?thesis using g by (simp add: PotcarData_get_or_create_def)
next
  case (Inr m)
  from inv f obtain s where "s \<in> set (potcars d)" "md5 s = md5 file_node"
    unfolding one_to_one_def by blast
  then have "exists (potcars d) [(''md5'', m)]"
    using Inr by (auto simp: exists_iff satisfies_md5)
  then show ?thesis using g Inr
    by (auto simp: PotcarData_get_or_create_def split: sum.splits)
qed

subsection \<open>When a store raises UniquenessError\<close>

lemma has_meta:
  assumes k: "set (map fst (attributes n)) = set meta_attrs"
  shows "\<exists>m t f e y. md5 n = Inr m \<and> title n = Inr t \<and> functional n = Inr f \<and>
      element n = Inr e \<and> symbol n = Inr y"
proof -
  have mem: "\<And>a. a \<in> set meta_attrs \<Longrightarrow> \<exists>v. get_attr n a = Inr v"
  proof -
    fix a assume "a \<in> set meta_attrs"
    then have "a \<in> fst ` set (attributes n)" using k by simp
    then obtain v where "map_of (attributes n) a = Some v"
      by (metis domD dom_map_of_conv_image_fst)
    then show "\<exists>v. get_attr n a = Inr v" by (simp add: get_attr_def)
  qed
  show ?thesis
    using mem[of "''md5''"] mem[of "''title''"] mem[of "''functional''"] mem[of "''element''"]
      mem[of "''symbol''"]
    by (auto simp: meta_attrs_def md5_def title_def functional_def element_def symbol_def)
qed

lemma query_md5_filter:
  assumes "md5 n = Inr m"
  shows "query_by_attrs table [(''md5'', m)] = filter (\<lambda>r. md5 r = md5 n) table"
  unfolding query_by_attrs_def using assms by (simp add: satisfies_md5 cong: filter_cong)

lemma find_node_several:
  "1 < length (query_by_attrs table kwargs) \<Longrightarrow> find_node table kwargs = Inl MultipleObjectsError"
  by (cases "query_by_attrs table kwargs" rule: one.cases) (auto simp: find_node_def)

lemma find_node_one:
  "length (query_by_attrs table kwargs) = 1 \<Longrightarrow> \<exists>r. find_node table kwargs = Inr r"
  by (cases "query_by_attrs table kwargs" rule: one.cases) (auto simp: find_node_def)

lemma PotcarData_get_or_create_cases:
  fixes file_node :: "'a node_scheme"
  assumes kf: "set (map fst (attributes file_node)) = set meta_attrs"
  shows "(1 < length (filter (\<lambda>r. md5 r = md5 file_node) (potcars d)) \<longrightarrow>
            PotcarData_get_or_create file_node d = (Inl MultipleObjectsError, d))
     \<and> (length (filter (\<lambda>r. md5 r = md5 file_node) (potcars d)) = 1 \<longrightarrow>
            (\<exists>shadow. PotcarData_get_or_create file_node d = (Inr (shadow, False), d)))
     \<and> (\<not> same_hash_stored (potcars d) file_node
          \<and> same_metadata_other_hash (potcars d) file_node \<longrightarrow>
            PotcarData_get_or_create file_node d = (Inl UniquenessError, d))
     \<and> (\<not> same_hash_stored (potcars d) file_node
          \<and> \<not> same_metadata_other_hash (potcars d) file_node \<longrightarrow>
            (\<exists>shadow d1. PotcarData_get_or_create file_node d = (Inr (shadow, True), d1)))"
proof -
  from has_meta[OF kf] obtain m t f e y where
    a: "md5 file_node = Inr m" "title file_node = Inr t" "functional file_node = Inr f"
      "element file_node = Inr e" "symbol file_node = Inr y"
    by blast
  let ?q = "query_by_attrs (potcars d) [(''md5'', m)]"
  have q: "?q = filter (\<lambda>r. md5 r = md5 file_node) (potcars d)"
    by (rule query_md5_filter[OF a(1)])
  have ex: "exists (potcars d) [(''md5'', m)] \<longleftrightarrow> same_hash_stored (potcars d) file_node"
    by (simp add: exists_iff satisfies_md5 a(1))
  define node :: potcar_data where "node = \<lparr>pk = None, attributes = [(''md5'', m), (''title'', t),
      (''functional'', f), (''element'', e), (''symbol'', y)]\<rparr>"
  have n: "set_potcar_file_node file_node new_potcar_data = Inr node"
    unfolding node_def by (rule set_potcar_file_node_new[OF a])
  have na: "md5 node = md5 file_node" "title node = title file_node"
    "functional node = functional file_node" "element node = element file_node"
    "symbol node = symbol file_node"
    by (simp_all add: node_def meta_of_attrs a)
  have vu: "verify_unique (potcars d) node =
     (if same_hash_stored (potcars d) file_node \<or> same_metadata_other_hash (potcars d) file_node
      then Inl UniquenessError else Inr ())"
    using verify_unique_eq[OF node_wf[of None m t f e y], folded node_def, of "potcars d"]
    by (simp add: na)
  have 1: "PotcarData_get_or_create file_node d = (Inl MultipleObjectsError, d)"
    if "1 < length (filter (\<lambda>r. md5 r = md5 file_node) (potcars d))"
  proof -
    have l: "1 < length ?q" using that q by simp
    then have "exists (potcars d) [(''md5'', m)]" by (simp add: exists_def count_def)
    then show ?thesis
      using find_node_several[OF l] by (simp add: PotcarData_get_or_create_def a(1))
  qed
  have 2: "\<exists>shadow. PotcarData_get_or_create file_node d = (Inr (shadow, False), d)"
    if "length (filter (\<lambda>r. md5 r = md5 file_node) (potcars d)) = 1"
  proof -
    have l: "length ?q = 1" using that q by simp
    then have "exists (potcars d) [(''md5'', m)]" by (simp add: exists_def count_def)
    then show ?thesis
      using find_node_one[OF l] by (auto simp: PotcarData_get_or_create_def a(1))
  qed
  define A where "A \<longleftrightarrow> same_hash_stored (potcars d) file_node"
  define B where "B \<longleftrightarrow> same_metadata_other_hash (potcars d) file_node"
  have vu': "verify_unique (potcars d) node = (if A \<or> B then Inl UniquenessError else Inr ())"
    using vu unfolding A_def B_def .
  have ex': "exists (potcars d) [(''md5'', m)] \<longleftrightarrow> A" using ex unfolding A_def .
  have 3: "PotcarData_get_or_create file_node d = (Inl UniquenessError, d)" if "\<not> A \<and> B"
    using that by (simp add: PotcarData_get_or_create_def a(1) n PotcarData_store_def ex' vu')
  have 4: "\<exists>shadow d1. PotcarData_get_or_create file_node d = (Inr (shadow, True), d1)"
    if "\<not> A \<and> \<not> B"
    using that
    by (simp add: PotcarData_get_or_create_def a(1) n PotcarData_store_def ex' vu'
        Data_store_def Let_def)
  show ?thesis using 1 2 3 4 unfolding A_def B_def by blast
qed

lemma same_hash_stored_length:
  "same_hash_stored table n \<longleftrightarrow> 0 < length (filter (\<lambda>r. md5 r = md5 n) table)"
  by (auto simp: filter_empty_conv)

lemma PotcarFileData_store_Inl:
  "PotcarData_get_or_create self d = (Inl e, d1) \<Longrightarrow> PotcarFileData_store self d = (Inl e, d1)"
  by (simp add: PotcarFileData_store_def)

text \<open>
  C3. The claim is that a store fails with \<^verbatim>\<open>UniquenessError\<close> in exactly two
  situations, a stored node of the index with the same md5, or one with the same title,
  functional, element and symbol under another md5, and succeeds otherwise. For nodes with
  exactly the five metadata attributes this is so for \<^verbatim>\<open>verify_unique\<close> of both classes
  and for \<^verbatim>\<open>PotcarData.store\<close>. \<^verbatim>\<open>PotcarFileData.store\<close> has a third situation,
  because it gets or creates the \<^verbatim>\<open>PotcarData\<close> node first: it also raises
  \<^verbatim>\<open>UniquenessError\<close> when no \<^verbatim>\<open>PotcarData\<close> with its md5 is stored and one with
  its title, functional, element and symbol is. When more than one \<^verbatim>\<open>PotcarData\<close> has its
  md5 it raises \<^verbatim>\<open>MultipleObjectsError\<close>; in every other case it stores the node.
\<close>

theorem uniqueness_error_cases:
  fixes self :: potcar_data and file_node :: potcar_file_data
  assumes ds: "distinct (map fst (attributes self))"
    and ks: "set (map fst (attributes self)) = set meta_attrs"
    and df: "distinct (map fst (attributes file_node))"
    and kf: "set (map fst (attributes file_node)) = set meta_attrs"
  shows
    "verify_unique table self =
       (if same_hash_stored table self \<or> same_metadata_other_hash table self
        then Inl UniquenessError else Inr ())
     \<and> PotcarData_store self d =
       (if same_hash_stored (potcars d) self \<or> same_metadata_other_hash (potcars d) self
        then (Inl UniquenessError, d)
        else (Inr (self\<lparr>pk := Some (next_pk d)\<rparr>),
              d\<lparr>potcars := potcars d @ [self\<lparr>pk := Some (next_pk d)\<rparr>],
                next_pk := Suc (next_pk d)\<rparr>))
     \<and> PotcarFileData_verify_unique d file_node =
       (if same_hash_stored (potcar_files d) file_node
           \<or> same_metadata_other_hash (potcar_files d) file_node
        then Inl UniquenessError else Inr ())
     \<and> (\<forall>shadow d1. PotcarData_get_or_create file_node d = (Inr shadow, d1) \<longrightarrow>
          PotcarFileData_store file_node d =
            (if same_hash_stored (potcar_files d) file_node
                \<or> same_metadata_other_hash (potcar_files d) file_node
             then (Inl UniquenessError, d1)
             else (Inr (file_node\<lparr>pk := Some (next_pk d1)\<rparr>),
                   d1\<lparr>potcar_files := potcar_files d1 @ [file_node\<lparr>pk := Some (next_pk d1)\<rparr>],
                     next_pk := Suc (next_pk d1)\<rparr>)))
     \<and> (1 < length (filter (\<lambda>r. md5 r = md5 file_node) (potcars d)) \<longrightarrow>
          PotcarFileData_store file_node d = (Inl MultipleObjectsError, d))
     \<and> (fst (PotcarFileData_store file_node d) = Inl UniquenessError \<longleftrightarrow>
          (\<not> same_hash_stored (potcars d) file_node
             \<and> same_metadata_other_hash (potcars d) file_node)
          \<or> (length (filter (\<lambda>r. md5 r = md5 file_node) (potcars d)) \<le> 1
             \<and> (same_hash_stored (potcar_files d) file_node
                \<or> same_metadata_other_hash (potcar_files d) file_node)))
     \<and> ((\<exists>stored. fst (PotcarFileData_store file_node d) = Inr stored) \<longleftrightarrow>
          length (filter (\<lambda>r. md5 r = md5 file_node) (potcars d)) \<le> 1
          \<and> \<not> (\<not> same_hash_stored (potcars d) file_node
                \<and> same_metadata_other_hash (potcars d) file_node)
          \<and> \<not> same_hash_stored (potcar_files d) file_node
          \<and> \<not> same_metadata_other_hash (potcar_files d) file_node)"
proof -
  have 1: "verify_unique table self =
       (if same_hash_stored table self \<or> same_metadata_other_hash table self
        then Inl UniquenessError else Inr ())"
    by (rule verify_unique_eq[OF ds ks])
  have 2: "PotcarData_store self d =
       (if same_hash_stored (potcars d) self \<or> same_metadata_other_hash (potcars d) self
        then (Inl UniquenessError, d)
        else (Inr (self\<lparr>pk := Some (next_pk d)\<rparr>),
              d\<lparr>potcars := potcars d @ [self\<lparr>pk := Some (next_pk d)\<rparr>],
                next_pk := Suc (next_pk d)\<rparr>))"
  proof -
    define c where "c \<longleftrightarrow>
      same_hash_stored (potcars d) self \<or> same_metadata_other_hash (potcars d) self"
    have "verify_unique (potcars d) self = (if c then Inl UniquenessError else Inr ())"
      unfolding c_def by (rule verify_unique_eq[OF ds ks])
    then have "PotcarData_store self d =
       (if c then (Inl UniquenessError, d)
        else (Inr (self\<lparr>pk := Some (next_pk d)\<rparr>),
              d\<lparr>potcars := potcars d @ [self\<lparr>pk := Some (next_pk d)\<rparr>],
                next_pk := Suc (next_pk d)\<rparr>))"
      by (simp add: PotcarData_store_def Data_store_def Let_def)
    then show ?thesis unfolding c_def .
  qed
  have 3: "PotcarFileData_verify_unique d file_node =
       (if same_hash_stored (potcar_files d) file_node
           \<or> same_metadata_other_hash (potcar_files d) file_node
        then Inl UniquenessError else Inr ())"
    unfolding PotcarFileData_verify_unique_conv by (rule verify_unique_eq[OF df kf])
  have 4: "PotcarFileData_store file_node d =
            (if same_hash_stored (potcar_files d) file_node
                \<or> same_metadata_other_hash (potcar_files d) file_node
             then (Inl UniquenessError, d1)
             else (Inr (file_node\<lparr>pk := Some (next_pk d1)\<rparr>),
                   d1\<lparr>potcar_files := potcar_files d1 @ [file_node\<lparr>pk := Some (next_pk d1)\<rparr>],
                     next_pk := Suc (next_pk d1)\<rparr>))"
    if g: "PotcarData_get_or_create file_node d = (Inr shadow, d1)" for shadow d1
  proof -
    have f: "potcar_files d1 = potcar_files d" by (rule PotcarData_get_or_create_files[OF g])
    define c where "c \<longleftrightarrow>
      same_hash_stored (potcar_files d) file_node
        \<or> same_metadata_other_hash (potcar_files d) file_node"
    have "PotcarFileData_verify_unique d1 file_node =
       (if c then Inl UniquenessError else Inr ())"
      unfolding PotcarFileData_verify_unique_conv f c_def by (rule verify_unique_eq[OF df kf])
    then have "PotcarFileData_store file_node d =
            (if c then (Inl UniquenessError, d1)
             else (Inr (file_node\<lparr>pk := Some (next_pk d1)\<rparr>),
                   d1\<lparr>potcar_files := potcar_files d1 @ [file_node\<lparr>pk := Some (next_pk d1)\<rparr>],
                     next_pk := Suc (next_pk d1)\<rparr>))"
      by (simp add: PotcarFileData_store_def g ArchiveData_store_def Let_def)
    then show ?thesis unfolding c_def .
  qed
  define L where "L = length (filter (\<lambda>r. md5 r = md5 file_node) (potcars d))"
  define Ap where "Ap \<longleftrightarrow> same_hash_stored (potcars d) file_node"
  define Bp where "Bp \<longleftrightarrow> same_metadata_other_hash (potcars d) file_node"
  define Cf where "Cf \<longleftrightarrow> same_hash_stored (potcar_files d) file_node
      \<or> same_metadata_other_hash (potcar_files d) file_node"
  have ApL: "Ap \<longleftrightarrow> 0 < L" unfolding Ap_def L_def by (rule same_hash_stored_length)
  note g = PotcarData_get_or_create_cases[OF kf, of d, folded L_def Ap_def Bp_def]
  have s4: "PotcarFileData_store file_node d =
      (if Cf then (Inl UniquenessError, d1)
       else (Inr (file_node\<lparr>pk := Some (next_pk d1)\<rparr>),
             d1\<lparr>potcar_files := potcar_files d1 @ [file_node\<lparr>pk := Some (next_pk d1)\<rparr>],
               next_pk := Suc (next_pk d1)\<rparr>))"
    if "PotcarData_get_or_create file_node d = (Inr shadow, d1)" for shadow d1
    using 4[OF that] unfolding Cf_def .
  have 5: "PotcarFileData_store file_node d = (Inl MultipleObjectsError, d)" if "1 < L"
    using g that PotcarFileData_store_Inl by blast
  have 6: "fst (PotcarFileData_store file_node d) = Inl UniquenessError \<longleftrightarrow>
      (\<not> Ap \<and> Bp) \<or> (L \<le> 1 \<and> Cf)"
    and 7: "(\<exists>stored. fst (PotcarFileData_store file_node d) = Inr stored) \<longleftrightarrow>
      L \<le> 1 \<and> \<not> (\<not> Ap \<and> Bp) \<and> \<not> Cf"
  proof -
    consider "1 < L" | "L = 1" | "L = 0" "Bp" | "L = 0" "\<not> Bp" by linarith
    then have "(fst (PotcarFileData_store file_node d) = Inl UniquenessError \<longleftrightarrow>
      (\<not> Ap \<and> Bp) \<or> (L \<le> 1 \<and> Cf))
      \<and> ((\<exists>stored. fst (PotcarFileData_store file_node d) = Inr stored) \<longleftrightarrow>
      L \<le> 1 \<and> \<not> (\<not> Ap \<and> Bp) \<and> \<not> Cf)"
    proof cases
      case 1
      then show ?thesis using 5 ApL by simp
    next
      case 2
      then obtain shadow where "PotcarData_get_or_create file_node d = (Inr (shadow, False), d)"
        using g by blast
      from s4[OF this] show ?thesis using 2 ApL by simp
    next
      case 3
      then have "PotcarData_get_or_create file_node d = (Inl UniquenessError, d)"
        using g ApL by simp
      then have "PotcarFileData_store file_node d = (Inl UniquenessError, d)"
        by (rule PotcarFileData_store_Inl)
      then show ?thesis using 3 ApL by simp
    next
      case 4
      then obtain shadow d1 where
        "PotcarData_get_or_create file_node d = (Inr (shadow, True), d1)"
        using g ApL by auto
      from s4[OF this] show ?thesis using 4 ApL by simp
    qed
    then show "fst (PotcarFileData_store file_node d) = Inl UniquenessError \<longleftrightarrow>
      (\<not> Ap \<and> Bp) \<or> (L \<le> 1 \<and> Cf)"
      and "(\<exists>stored. fst (PotcarFileData_store file_node d) = Inr stored) \<longleftrightarrow>
      L \<le> 1 \<and> \<not> (\<not> Ap \<and> Bp) \<and> \<not> Cf"
      by blast+
  qed
  have c5: "1 < length (filter (\<lambda>r. md5 r = md5 file_node) (potcars d)) \<longrightarrow>
          PotcarFileData_store file_node d = (Inl MultipleObjectsError, d)"
    using 5 unfolding L_def by blast
  have c6: "fst (PotcarFileData_store file_node d) = Inl UniquenessError \<longleftrightarrow>
          (\<not> same_hash_stored (potcars d) file_node
             \<and> same_metadata_other_hash (potcars d) file_node)
          \<or> (length (filter (\<lambda>r. md5 r = md5 file_node) (potcars d)) \<le> 1
             \<and> (same_hash_stored (potcar_files d) file_node
                \<or> same_metadata_other_hash (potcar_files d) file_node))"
    using 6 unfolding L_def Ap_def Bp_def Cf_def .
  have c7: "(\<exists>stored. fst (PotcarFileData_store file_node d) = Inr stored) \<longleftrightarrow>
          length (filter (\<lambda>r. md5 r = md5 file_node) (potcars d)) \<le> 1
          \<and> \<not> (\<not> same_hash_stored (potcars d) file_node
                \<and> same_metadata_other_hash (potcars d) file_node)
          \<and> \<not> same_hash_stored (potcar_files d) file_node
          \<and> \<not> same_metadata_other_hash (potcar_files d) file_node"
    using 7 unfolding L_def Ap_def Bp_def Cf_def by blast
  have c4: "\<forall>shadow d1. PotcarData_get_or_create file_node d = (Inr shadow, d1) \<longrightarrow>
          PotcarFileData_store file_node d =
            (if same_hash_stored (potcar_files d) file_node
                \<or> same_metadata_other_hash (potcar_files d) file_node
             then (Inl UniquenessError, d1)
             else (Inr (file_node\<lparr>pk := Some (next_pk d1)\<rparr>),
                   d1\<lparr>potcar_files := potcar_files d1 @ [file_node\<lparr>pk := Some (next_pk d1)\<rparr>],
                     next_pk := Suc (next_pk d1)\<rparr>))"
    using 4 by blast
  show ?thesis
    apply (intro conjI)
          apply (rule 1)
         apply (rule 2)
        apply (rule 3)
       apply (rule c4)
      apply (rule c5)
     apply (rule c6)
    apply (rule c7)
    done
qed

text \<open>
  The counterexample to C3 as claimed: the only stored node is a \<^verbatim>\<open>PotcarData\<close> of the
  arsenic POTCAR, and a file node with the same metadata under another md5 is stored. No
  \<^verbatim>\<open>PotcarFileData\<close> is stored at all, \<^verbatim>\<open>PotcarFileData.verify_unique\<close> passes, and
  the store raises \<^verbatim>\<open>UniquenessError\<close>.
\<close>

theorem file_store_uniqueness_counterexample:
  "fst (PotcarFileData_store
        \<lparr>pk = None, attributes = [(''md5'', ''ffff''), (''title'', ''PAW As''),
           (''functional'', ''PBE''), (''element'', ''As''), (''symbol'', ''As'')],
           filelist = [(''POTCAR'', None :: string option)]\<rparr>
        \<lparr>potcar_files = [], potcars = [\<lparr>pk = Some 0, attributes = As_attrs\<rparr>], next_pk = 1\<rparr>) = Inl UniquenessError
   \<and> PotcarFileData_verify_unique \<lparr>potcar_files = [], potcars = [\<lparr>pk = Some 0, attributes = As_attrs\<rparr>], next_pk = 1\<rparr>
        \<lparr>pk = None, attributes = [(''md5'', ''ffff''), (''title'', ''PAW As''),
           (''functional'', ''PBE''), (''element'', ''As''), (''symbol'', ''As'')],
           filelist = [(''POTCAR'', None :: string option)]\<rparr> = Inr ()
   \<and> \<not> same_hash_stored (potcar_files \<lparr>potcar_files = [], potcars = [\<lparr>pk = Some 0, attributes = As_attrs\<rparr>], next_pk = 1\<rparr>)
        \<lparr>pk = None, attributes = [(''md5'', ''ffff''), (''title'', ''PAW As''),
           (''functional'', ''PBE''), (''element'', ''As''), (''symbol'', ''As'')],
           filelist = [(''POTCAR'', None :: string option)]\<rparr>
   \<and> \<not> same_metadata_other_hash (potcar_files \<lparr>potcar_files = [], potcars = [\<lparr>pk = Some 0, attributes = As_attrs\<rparr>], next_pk = 1\<rparr>)
        \<lparr>pk = None, attributes = [(''md5'', ''ffff''), (''title'', ''PAW As''),
           (''functional'', ''PBE''), (''element'', ''As''), (''symbol'', ''As'')],
           filelist = [(''POTCAR'', None :: string option)]\<rparr>"
  by (simp add: PotcarFileData_store_def PotcarData_get_or_create_def md5_def get_attr_def
      As_attrs_def exists_def count_def query_by_attrs_def satisfies_def
      set_potcar_file_node_def meta_attrs_def new_potcar_data_def set_attr_def
      PotcarData_store_def verify_unique_def get_attrs_def Let_def
      PotcarFileData_verify_unique_def)

theorem uniqueness_error_cases_witness:
  "distinct (map fst As_attrs) \<and> set (map fst As_attrs) = set meta_attrs
   \<and> PotcarData_store \<lparr>pk = None, attributes = As_attrs\<rparr> empty_db =
       (Inr \<lparr>pk = Some 0, attributes = As_attrs\<rparr>,
        \<lparr>potcar_files = [], potcars = [\<lparr>pk = Some 0, attributes = As_attrs\<rparr>], next_pk = 1\<rparr>)
   \<and> PotcarData_store \<lparr>pk = None, attributes = As_attrs\<rparr>
        \<lparr>potcar_files = [], potcars = [\<lparr>pk = Some 0, attributes = As_attrs\<rparr>], next_pk = 1\<rparr> =
       (Inl UniquenessError,
        \<lparr>potcar_files = [], potcars = [\<lparr>pk = Some 0, attributes = As_attrs\<rparr>], next_pk = 1\<rparr>)
   \<and> PotcarData_store
        \<lparr>pk = None, attributes = [(''md5'', ''ffff''), (''title'', ''PAW As''),
           (''functional'', ''PBE''), (''element'', ''As''), (''symbol'', ''As'')]\<rparr>
        \<lparr>potcar_files = [], potcars = [\<lparr>pk = Some 0, attributes = As_attrs\<rparr>], next_pk = 1\<rparr> =
       (Inl UniquenessError,
        \<lparr>potcar_files = [], potcars = [\<lparr>pk = Some 0, attributes = As_attrs\<rparr>], next_pk = 1\<rparr>)
   \<and> PotcarData_get_or_create \<lparr>pk = None, attributes = As_attrs, filelist = [(''POTCAR'', None)]\<rparr>
        empty_db =
       (Inr (\<lparr>pk = Some 0, attributes = As_attrs\<rparr>, True),
        \<lparr>potcar_files = [], potcars = [\<lparr>pk = Some 0, attributes = As_attrs\<rparr>], next_pk = 1\<rparr>)
   \<and> PotcarFileData_store \<lparr>pk = None, attributes = As_attrs, filelist = [(''POTCAR'', None)]\<rparr>
        empty_db =
       (Inr \<lparr>pk = Some 1, attributes = As_attrs, filelist = [(''POTCAR'', None)]\<rparr>,
        \<lparr>potcar_files = [\<lparr>pk = Some 1, attributes = As_attrs, filelist = [(''POTCAR'', None)]\<rparr>],
         potcars = [\<lparr>pk = Some 0, attributes = As_attrs\<rparr>], next_pk = 2\<rparr>)
   \<and> fst (PotcarFileData_store
        \<lparr>pk = None, attributes = [(''md5'', ''ffff''), (''title'', ''PAW As''),
           (''functional'', ''PBE''), (''element'', ''As''), (''symbol'', ''As'')],
           filelist = [(''POTCAR'', None :: string option)]\<rparr>
        \<lparr>potcar_files = [], potcars = [\<lparr>pk = Some 0, attributes = As_attrs\<rparr>], next_pk = 1\<rparr>) = Inl UniquenessError"
proof -
  have g: "PotcarData_get_or_create \<lparr>pk = None, attributes = As_attrs, filelist = [(''POTCAR'', None)]\<rparr>
        empty_db =
       (Inr (\<lparr>pk = Some 0, attributes = As_attrs\<rparr>, True),
        \<lparr>potcar_files = [], potcars = [\<lparr>pk = Some 0, attributes = As_attrs\<rparr>], next_pk = 1\<rparr>)"
    by (simp add: PotcarData_get_or_create_def md5_def get_attr_def As_attrs_def empty_db_def
        exists_def count_def query_by_attrs_def set_potcar_file_node_def meta_attrs_def
        new_potcar_data_def set_attr_def PotcarData_store_def verify_unique_def Data_store_def
        get_attrs_def Let_def)
  have s0: "\<not> same_hash_stored (potcars empty_db) \<lparr>pk = None, attributes = As_attrs\<rparr>"
    "\<not> same_metadata_other_hash (potcars empty_db) \<lparr>pk = None, attributes = As_attrs\<rparr>"
    "\<not> same_hash_stored (potcar_files empty_db)
        \<lparr>pk = None, attributes = As_attrs, filelist = [(''POTCAR'', None)]\<rparr>"
    "\<not> same_metadata_other_hash (potcar_files empty_db)
        \<lparr>pk = None, attributes = As_attrs, filelist = [(''POTCAR'', None)]\<rparr>"
    by (simp_all add: empty_db_def)
  have s1: "same_hash_stored
      (potcars \<lparr>potcar_files = [], potcars = [\<lparr>pk = Some 0, attributes = As_attrs\<rparr>], next_pk = 1\<rparr>)
      \<lparr>pk = None, attributes = As_attrs\<rparr>"
    by (simp add: md5_def get_attr_def)
  have w: "distinct (map fst (attributes (\<lparr>pk = None, attributes = As_attrs\<rparr> :: potcar_data)))"
    "set (map fst (attributes (\<lparr>pk = None, attributes = As_attrs\<rparr> :: potcar_data))) = set meta_attrs"
    "distinct (map fst (attributes
        \<lparr>pk = None, attributes = As_attrs, filelist = [(''POTCAR'', None :: string option)]\<rparr>))"
    "set (map fst (attributes
        \<lparr>pk = None, attributes = As_attrs, filelist = [(''POTCAR'', None :: string option)]\<rparr>))
      = set meta_attrs"
    using As_attrs_wf by simp_all
  note t0 = uniqueness_error_cases [OF w, where table = "[] :: potcar_data list" and d = empty_db]
  note t1 = uniqueness_error_cases [OF w, where table = "[] :: potcar_data list"
      and d = "\<lparr>potcar_files = [], potcars = [\<lparr>pk = Some 0, attributes = As_attrs\<rparr>], next_pk = 1\<rparr>"]
  have c2: "PotcarData_store \<lparr>pk = None, attributes = As_attrs\<rparr> empty_db =
       (Inr \<lparr>pk = Some 0, attributes = As_attrs\<rparr>,
        \<lparr>potcar_files = [], potcars = [\<lparr>pk = Some 0, attributes = As_attrs\<rparr>], next_pk = 1\<rparr>)"
    using t0 [THEN conjunct2, THEN conjunct1] s0 by (simp add: empty_db_def)
  have c3: "PotcarData_store \<lparr>pk = None, attributes = As_attrs\<rparr>
        \<lparr>potcar_files = [], potcars = [\<lparr>pk = Some 0, attributes = As_attrs\<rparr>], next_pk = 1\<rparr> =
       (Inl UniquenessError,
        \<lparr>potcar_files = [], potcars = [\<lparr>pk = Some 0, attributes = As_attrs\<rparr>], next_pk = 1\<rparr>)"
    using t1 [THEN conjunct2, THEN conjunct1] s1 by simp
  have c4: "PotcarFileData_store \<lparr>pk = None, attributes = As_attrs, filelist = [(''POTCAR'', None)]\<rparr>
        empty_db =
       (Inr \<lparr>pk = Some 1, attributes = As_attrs, filelist = [(''POTCAR'', None)]\<rparr>,
        \<lparr>potcar_files = [\<lparr>pk = Some 1, attributes = As_attrs, filelist = [(''POTCAR'', None)]\<rparr>],
         potcars = [\<lparr>pk = Some 0, attributes = As_attrs\<rparr>], next_pk = 2\<rparr>)"
    using t0 [THEN conjunct2, THEN conjunct2, THEN conjunct2, THEN conjunct1, rule_format, OF g] s0
    by (simp add: empty_db_def)
  have w2: "distinct (map fst (attributes (\<lparr>pk = None, attributes = [(''md5'', ''ffff''),
        (''title'', ''PAW As''), (''functional'', ''PBE''), (''element'', ''As''),
        (''symbol'', ''As'')]\<rparr> :: potcar_data)))"
    "set (map fst (attributes (\<lparr>pk = None, attributes = [(''md5'', ''ffff''),
        (''title'', ''PAW As''), (''functional'', ''PBE''), (''element'', ''As''),
        (''symbol'', ''As'')]\<rparr> :: potcar_data))) = set meta_attrs"
    by (simp_all add: meta_attrs_def)
  have s2: "same_metadata_other_hash
      (potcars \<lparr>potcar_files = [], potcars = [\<lparr>pk = Some 0, attributes = As_attrs\<rparr>], next_pk = 1\<rparr>)
      (\<lparr>pk = None, attributes = [(''md5'', ''ffff''), (''title'', ''PAW As''),
           (''functional'', ''PBE''), (''element'', ''As''), (''symbol'', ''As'')]\<rparr> :: potcar_data)"
    by (simp add: md5_def title_def functional_def element_def symbol_def get_attr_def
        As_attrs_def)
  note t2 = uniqueness_error_cases [OF w2 w(3,4), where table = "[] :: potcar_data list"
      and d = "\<lparr>potcar_files = [], potcars = [\<lparr>pk = Some 0, attributes = As_attrs\<rparr>], next_pk = 1\<rparr>"]
  have c5: "PotcarData_store
        \<lparr>pk = None, attributes = [(''md5'', ''ffff''), (''title'', ''PAW As''),
           (''functional'', ''PBE''), (''element'', ''As''), (''symbol'', ''As'')]\<rparr>
        \<lparr>potcar_files = [], potcars = [\<lparr>pk = Some 0, attributes = As_attrs\<rparr>], next_pk = 1\<rparr> =
       (Inl UniquenessError,
        \<lparr>potcar_files = [], potcars = [\<lparr>pk = Some 0, attributes = As_attrs\<rparr>], next_pk = 1\<rparr>)"
    using t2 [THEN conjunct2, THEN conjunct1] s2 by simp
  have w3: "distinct (map fst (attributes
        \<lparr>pk = None, attributes = [(''md5'', ''ffff''), (''title'', ''PAW As''),
           (''functional'', ''PBE''), (''element'', ''As''), (''symbol'', ''As'')],
           filelist = [(''POTCAR'', None :: string option)]\<rparr>))"
    "set (map fst (attributes
        \<lparr>pk = None, attributes = [(''md5'', ''ffff''), (''title'', ''PAW As''),
           (''functional'', ''PBE''), (''element'', ''As''), (''symbol'', ''As'')],
           filelist = [(''POTCAR'', None :: string option)]\<rparr>)) = set meta_attrs"
    by (simp_all add: meta_attrs_def)
  have s3: "\<not> same_hash_stored (potcars \<lparr>potcar_files = [], potcars = [\<lparr>pk = Some 0, attributes = As_attrs\<rparr>], next_pk = 1\<rparr>)
        \<lparr>pk = None, attributes = [(''md5'', ''ffff''), (''title'', ''PAW As''),
           (''functional'', ''PBE''), (''element'', ''As''), (''symbol'', ''As'')],
           filelist = [(''POTCAR'', None :: string option)]\<rparr>
      \<and> same_metadata_other_hash (potcars \<lparr>potcar_files = [], potcars = [\<lparr>pk = Some 0, attributes = As_attrs\<rparr>], next_pk = 1\<rparr>)
        \<lparr>pk = None, attributes = [(''md5'', ''ffff''), (''title'', ''PAW As''),
           (''functional'', ''PBE''), (''element'', ''As''), (''symbol'', ''As'')],
           filelist = [(''POTCAR'', None :: string option)]\<rparr>"
    by (simp add: md5_def title_def functional_def element_def symbol_def get_attr_def
        As_attrs_def)
  note t3 = uniqueness_error_cases [OF w(1,2) w3, where table = "[] :: potcar_data list"
      and d = "\<lparr>potcar_files = [], potcars = [\<lparr>pk = Some 0, attributes = As_attrs\<rparr>], next_pk = 1\<rparr>"]
  have c6: "fst (PotcarFileData_store
        \<lparr>pk = None, attributes = [(''md5'', ''ffff''), (''title'', ''PAW As''),
           (''functional'', ''PBE''), (''element'', ''As''), (''symbol'', ''As'')],
           filelist = [(''POTCAR'', None :: string option)]\<rparr>
        \<lparr>potcar_files = [], potcars = [\<lparr>pk = Some 0, attributes = As_attrs\<rparr>], next_pk = 1\<rparr>) = Inl UniquenessError"
    using t3 [THEN conjunct2, THEN conjunct2, THEN conjunct2, THEN conjunct2, THEN conjunct2,
        THEN conjunct1] s3 by blast
  show ?thesis
    using As_attrs_wf g c2 c3 c4 c5 c6 by simp
qed




subsection \<open>The description of a family\<close>

text \<open>
  C9. The claim is that an upload without a description is refused with a reported error when
  the family is new, and takes the description of the family when the family exists. The code
  does neither: whatever the name and whether or not a description is given, the callback
  raises \<^verbatim>\<open>TypeError\<close> when it lists the names of the existing families, because
  \<^verbatim>\<open>get_potcar_groups\<close> returns \<^verbatim>\<open>None\<close>.
\<close>

theorem description_callback_raises_type_error:
  "try_grab_description [(''name'', ''TEST'')] None = Inl TypeError
   \<and> try_grab_description [(''name'', ''TEST'')] (Some ''Test family'') = Inl TypeError
   \<and> try_grab_description [(''path'', ''potcars''), (''name'', ''NEW'')] None = Inl TypeError"
  by (simp add: try_grab_description_def get_potcar_groups_def)

subsection \<open>Uploading a family\<close>

text \<open>
  C4. The claim is that an upload with \<^verbatim>\<open>stop_if_existing=True\<close> fails at once on a
  file whose md5 is already stored. The code does not: with the arsenic POTCAR already stored
  and found again in the folder, \<^verbatim>\<open>upload_potcar_family\<close> raises nothing, returns
  \<^verbatim>\<open>None\<close> and leaves the database as it is.
\<close>

theorem upload_stop_if_existing_does_nothing:
  "exists (potcar_files
      \<lparr>potcar_files = [\<lparr>pk = Some 1, attributes = As_attrs, filelist = [(''POTCAR'', None)]\<rparr>],
       potcars = [\<lparr>pk = Some 0, attributes = As_attrs\<rparr>], next_pk = 2\<rparr>)
      [(''md5'', md5_file As_env ''potcars/As/POTCAR'')]
   \<and> upload_potcar_family ''potcars'' ''TEST'' ''Test family'' True
      \<lparr>potcar_files = [\<lparr>pk = Some 1, attributes = As_attrs, filelist = [(''POTCAR'', None)]\<rparr>],
       potcars = [\<lparr>pk = Some 0, attributes = As_attrs\<rparr>], next_pk = 2\<rparr>
     = (Inr None,
      \<lparr>potcar_files = [\<lparr>pk = Some 1, attributes = As_attrs, filelist = [(''POTCAR'', None)]\<rparr>],
       potcars = [\<lparr>pk = Some 0, attributes = As_attrs\<rparr>], next_pk = 2\<rparr>)"
  by (simp add: upload_potcar_family_def exists_def count_def query_by_attrs_def satisfies_def
      As_env_def As_attrs_def)

text \<open>
  C5. The claim is that an upload with \<^verbatim>\<open>stop_if_existing=False\<close> returns the pair of the
  number of files found and the number newly stored. The code returns \<^verbatim>\<open>None\<close>, not a
  pair, and stores nothing.
\<close>

theorem upload_returns_no_counts:
  "upload_potcar_family ''potcars'' ''TEST'' ''Test family'' False
      \<lparr>potcar_files = [\<lparr>pk = Some 1, attributes = As_attrs, filelist = [(''POTCAR'', None)]\<rparr>],
       potcars = [\<lparr>pk = Some 0, attributes = As_attrs\<rparr>], next_pk = 2\<rparr>
     = (Inr None,
      \<lparr>potcar_files = [\<lparr>pk = Some 1, attributes = As_attrs, filelist = [(''POTCAR'', None)]\<rparr>],
       potcars = [\<lparr>pk = Some 0, attributes = As_attrs\<rparr>], next_pk = 2\<rparr>)
   \<and> fst (upload_potcar_family ''potcars'' ''TEST'' ''Test family'' False
      \<lparr>potcar_files = [\<lparr>pk = Some 1, attributes = As_attrs, filelist = [(''POTCAR'', None)]\<rparr>],
       potcars = [\<lparr>pk = Some 0, attributes = As_attrs\<rparr>], next_pk = 2\<rparr>)
     \<noteq> Inr (Some (2, 1))"
  by (simp add: upload_potcar_family_def)

subsection \<open>Round trip of a file of several POTCARs\<close>

lemma split_one:
  assumes "r \<noteq> []" "ends_with marker (segment @ r)"
    and "\<And>n. 0 < n \<Longrightarrow> n < length r \<Longrightarrow> \<not> ends_with marker (segment @ take n r)"
  shows "split_records marker segment (r @ rest) = (segment @ r) # split_records marker [] rest"
  using assms
proof (induction r arbitrary: segment)
  case Nil
  then show ?case by simp
next
  case (Cons c r)
  show ?case
  proof (cases "r = []")
    case True
    then show ?thesis using Cons.prems(2) by simp
  next
    case False
    have "\<not> ends_with marker (segment @ take 1 (c # r))"
      using Cons.prems(3)[of 1] False by (cases r) auto
    then have ne: "\<not> ends_with marker (segment @ [c])" by simp
    have step: "\<And>n. 0 < n \<Longrightarrow> n < length r \<Longrightarrow>
        \<not> ends_with marker ((segment @ [c]) @ take n r)"
    proof -
      fix n assume "0 < n" "n < length r"
      then have "\<not> ends_with marker (segment @ take (Suc n) (c # r))"
        using Cons.prems(3)[of "Suc n"] by simp
      then show "\<not> ends_with marker ((segment @ [c]) @ take n r)" by simp
    qed
    have "split_records marker (segment @ [c]) (r @ rest) =
        ((segment @ [c]) @ r) # split_records marker [] rest"
      using Cons.IH[OF False _ step] Cons.prems(2) by simp
    then show ?thesis using ne by simp
  qed
qed

lemma split_record:
  assumes m: "marker \<noteq> []" and r: "is_record marker r"
  shows "split_records marker [] (r @ rest) = r # split_records marker [] rest"
proof -
  have e: "ends_with marker r" using r by (simp add: is_record_def)
  then have ne: "r \<noteq> []" using m by (auto simp: ends_with_def)
  have "\<And>n. n < length r \<Longrightarrow> \<not> ends_with marker (take n r)"
    using r by (simp add: is_record_def list_all_iff)
  then show ?thesis using split_one[of r marker "[]" rest] ne e by simp
qed

lemma split_concat:
  assumes m: "marker \<noteq> []" and "\<forall>r \<in> set rs. is_record marker r"
  shows "split_records marker [] (concat rs) = rs"
  using assms(2) by (induction rs) (simp_all add: split_record[OF m])

lemma write_concat:
  assumes "\<forall>w \<in> set W. wrapper_content w \<noteq> None"
  shows "MultiRecordIO_write W = Inr (concat (map (\<lambda>w. the (wrapper_content w)) W))"
  using assms by (induction W) (auto split: option.splits)

text \<open>
  C1. For every list of wrappers whose payloads are available, each a record in the payload
  format and hashed by the content hash function, \<^verbatim>\<open>write\<close> succeeds, and reading the
  written content back gives wrappers with the same hashes in the same order (so the same
  multiset of hashes too).
\<close>

theorem multi_round_trip:
  assumes m: "marker \<noteq> []"
    and W: "\<forall>w \<in> set W. \<exists>payload. wrapper_content w = Some payload
              \<and> wrapper_hash w = digest payload \<and> is_record marker payload"
  shows "\<exists>file. MultiRecordIO_write W = Inr file
     \<and> map wrapper_hash (MultiRecordIO_read digest marker file) = map wrapper_hash W"
proof -
  let ?ps = "map (\<lambda>w. the (wrapper_content w)) W"
  have "\<forall>w \<in> set W. wrapper_content w \<noteq> None" using W by auto
  then have wr: "MultiRecordIO_write W = Inr (concat ?ps)" by (rule write_concat)
  have "\<forall>r \<in> set ?ps. is_record marker r" using W by auto
  then have sp: "split_records marker [] (concat ?ps) = ?ps" by (rule split_concat[OF m])
  have "map wrapper_hash (MultiRecordIO_read digest marker (concat ?ps)) = map wrapper_hash W"
    unfolding MultiRecordIO_read_def sp using W by (auto simp: resolve_def)
  with wr show ?thesis by blast
qed

theorem multi_round_trip_witness:
  "''END'' \<noteq> []
   \<and> is_record ''END'' ''TITEL = PAW As END'' \<and> is_record ''END'' ''TITEL = PAW Ga END''
   \<and> MultiRecordIO_write
        [resolve (\<lambda>s. take 14 s) ''TITEL = PAW As END'', resolve (\<lambda>s. take 14 s) ''TITEL = PAW Ga END'']
       = Inr ''TITEL = PAW As ENDTITEL = PAW Ga END''
   \<and> map wrapper_hash (MultiRecordIO_read (\<lambda>s. take 14 s) ''END''
         ''TITEL = PAW As ENDTITEL = PAW Ga END'')
       = [''TITEL = PAW As'', ''TITEL = PAW Ga'']"
proof -
  have r: "is_record ''END'' ''TITEL = PAW As END''" "is_record ''END'' ''TITEL = PAW Ga END''"
    by (simp_all add: is_record_def ends_with_def upt_rec)
  have w: "MultiRecordIO_write
        [resolve (\<lambda>s. take 14 s) ''TITEL = PAW As END'', resolve (\<lambda>s. take 14 s) ''TITEL = PAW Ga END'']
       = Inr ''TITEL = PAW As ENDTITEL = PAW Ga END''"
    by (simp add: resolve_def)
  have h: "\<forall>w \<in> set [resolve (\<lambda>s. take 14 s) ''TITEL = PAW As END'',
                      resolve (\<lambda>s. take 14 s) ''TITEL = PAW Ga END''].
      \<exists>payload. wrapper_content w = Some payload
              \<and> wrapper_hash w = (\<lambda>s. take 14 s) payload \<and> is_record ''END'' payload"
    using r by (simp add: resolve_def)
  have m: "''END'' \<noteq> []" by simp
  from multi_round_trip [OF m h] w
  have "map wrapper_hash (MultiRecordIO_read (\<lambda>s. take 14 s) ''END''
         ''TITEL = PAW As ENDTITEL = PAW Ga END'')
       = map wrapper_hash [resolve (\<lambda>s. take 14 s) ''TITEL = PAW As END'',
                      resolve (\<lambda>s. take 14 s) ''TITEL = PAW Ga END'']"
    by auto
  then show ?thesis using r w by (simp add: resolve_def)
qed


end
